theory Spec2Isabelle
  imports Main
begin

section \<open>Data model (schema.sql)\<close>

text \<open>
  Identifiers are UUIDs. The engine only compares them for equality and sorts them
  (JavaScript \<^verbatim>\<open>[a, b].sort()\<close> on their canonical lower-case text form, PostgreSQL
  \<^verbatim>\<open>ORDER BY id\<close> on their bytes); both orders are the order of the 128-bit value, so a
  UUID is modelled by that value as a natural number.

  Amounts are \<^verbatim>\<open>DECIMAL(20, 8)\<close> columns. They are modelled exactly, as an integer
  number of units of \<open>10\<^sup>-\<^sup>8\<close>; the rounding of the JavaScript doubles that carry them
  between the driver and the database is outside this model.

  Timestamps are milliseconds on the clock the database and the process share.
\<close>

type_synonym uuid = nat
type_synonym timestamp = nat
type_synonym money = int

record asset_type =
  at_id :: uuid
  at_code :: string
  at_is_active :: bool

record account =
  acc_id :: uuid
  acc_account_type_id :: uuid
  acc_user_id :: "string option"
  acc_is_active :: bool

text \<open>The request metadata object: the keys the engine reads.\<close>

record metadata =
  md_description :: "string option"
  md_reason :: "string option"
  md_itemName :: "string option"
  md_itemId :: "string option"

text \<open>
  The description column is built by a template string that prints the amount; the
  template and its arguments are kept instead of the printed text.
\<close>

datatype description =
    Custom string
  | TopUpText money string
  | BonusText money string
  | PurchaseItemText string money string
  | PurchaseText money string

record transaction_row =
  tx_id :: uuid
  tx_idempotency_key :: string
  tx_transaction_type_id :: uuid
  tx_asset_type_id :: uuid
  tx_amount :: money
  tx_description :: description
  tx_metadata :: metadata
  tx_status :: string
  tx_created_at :: timestamp
  tx_completed_at :: "timestamp option"

datatype entry_type = Debit | Credit

record ledger_entry =
  le_transaction_id :: uuid
  le_account_id :: uuid
  le_asset_type_id :: uuid
  le_entry_type :: entry_type
  le_amount :: money
  le_running_balance :: money
  le_description :: string
  le_created_at :: timestamp

record balance_row =
  bc_balance :: money
  bc_last_transaction_id :: uuid
  bc_updated_at :: timestamp

text \<open>The response object of the three write operations, as it is serialised to JSON
  (a key whose value is \<^verbatim>\<open>undefined\<close> is absent, here \<open>None\<close>).\<close>

record response =
  res_transactionId :: uuid
  res_userId :: string
  res_assetCode :: string
  res_amount :: money
  res_newBalance :: money
  res_reason :: "string option"
  res_item :: "string option"
  res_timestamp :: timestamp

text \<open>
  The \<^verbatim>\<open>request_hash\<close> column holds the SHA-256 digest of
  \<^verbatim>\<open>JSON.stringify({userId, assetCode, amount})\<close>. The digest is never read back by
  the engine; the hashed triple stands for it.
\<close>

record idempotency_row =
  il_request_hash :: "string \<times> string \<times> money"
  il_response_data :: response
  il_status :: string
  il_created_at :: timestamp
  il_expires_at :: timestamp

record audit_row =
  au_transaction_id :: uuid
  au_account_id :: uuid
  au_action :: string
  au_request_userId :: string
  au_request_assetCode :: string
  au_request_amount :: money
  au_request_idempotencyKey :: "string option"
  au_request_reason :: "string option"
  au_request_item :: "string option"

text \<open>
  The nine relations. Tables read by \<^verbatim>\<open>rows[0]\<close> or appended to are lists in
  table order; \<^verbatim>\<open>balance_cache\<close> and \<^verbatim>\<open>idempotency_log\<close> are maps from their
  primary key to the row.
\<close>

record db =
  asset_types :: "asset_type list"
  account_types :: "(uuid \<times> string) list"
  accounts :: "account list"
  transaction_types :: "(uuid \<times> string) list"
  transactions :: "transaction_row list"
  ledger_entries :: "ledger_entry list"
  balance_cache :: "uuid \<times> uuid \<rightharpoonup> balance_row"
  idempotency_log :: "string \<rightharpoonup> idempotency_row"
  audit_log :: "audit_row list"

section \<open>Errors, events and the transaction monad\<close>

datatype pg_error =
    SerializationFailure
  | DeadlockDetected
  | LockNotAvailable
  | UniqueViolation
  | CheckViolation
  | NumericValueOutOfRange

fun sqlstate :: "pg_error \<Rightarrow> string" where
  "sqlstate SerializationFailure = ''40001''"
| "sqlstate DeadlockDetected = ''40P01''"
| "sqlstate LockNotAvailable = ''55P03''"
| "sqlstate UniqueViolation = ''23505''"
| "sqlstate CheckViolation = ''23514''"
| "sqlstate NumericValueOutOfRange = ''22003''"

datatype shortfall = TreasuryShort | BonusPoolShort | BalanceShort money money

datatype error =
    MissingParameters
  | AmountNotPositive
  | AssetNotFound string
  | UserAccountNotFound string
  | SystemAccountNotFound string
  | InsufficientFunds shortfall
  | TypeError
  | DbError pg_error
  | ThrownUndefined

text \<open>\<^verbatim>\<open>error.code\<close>: set by the driver on database errors only.\<close>

fun error_code :: "error \<Rightarrow> string option" where
  "error_code (DbError e) = Some (sqlstate e)"
| "error_code _ = None"

text \<open>
  What a connection does, in the order it does it: the statements sent, each row lock
  obtained, the balance test made in the process, and the backoff sleeps of the retry
  driver. The log is a record of what happened and is not undone by a rollback.
\<close>

datatype event =
    Begin
  | Commit
  | Rollback
  | SelectIdempotency string
  | SelectAssetType string
  | SelectUserAccount string
  | SelectSystemAccount string
  | LockRow uuid
  | SelectTransactionType string
  | InsertTransaction uuid
  | SelectBalance uuid uuid
  | CheckFunds
  | InsertLedgerEntry entry_type uuid
  | UpsertBalance uuid uuid
  | InsertIdempotency string
  | InsertAuditLog string
  | Sleep nat

record session =
  store :: db
  issued :: "event list"

text \<open>
  What one attempt takes from outside: the clock (\<^verbatim>\<open>new Date()\<close>,
  \<^verbatim>\<open>CURRENT_TIMESTAMP\<close>), the identifier \<^verbatim>\<open>uuidv4()\<close> returns, the account rows
  other connections hold locked (a \<^verbatim>\<open>NOWAIT\<close> lock on one of them fails), and the
  error, if any, with which the database answers \<^verbatim>\<open>COMMIT\<close>.
\<close>

record env =
  now :: timestamp
  uuid :: uuid
  busy :: "uuid list"
  commit_fault :: "pg_error option"

type_synonym 'a tx = "session \<Rightarrow> (error + 'a) \<times> session"

definition ret :: "'a \<Rightarrow> 'a tx" where
  "ret x s = (Inr x, s)"

definition throw :: "error \<Rightarrow> 'a tx" where
  "throw e s = (Inl e, s)"

definition and_then :: "'a tx \<Rightarrow> ('a \<Rightarrow> 'b tx) \<Rightarrow> 'b tx" where
  "and_then m f s = (case m s of (Inl e, s') \<Rightarrow> (Inl e, s') | (Inr x, s') \<Rightarrow> f x s')"

definition emit :: "event \<Rightarrow> unit tx" where
  "emit e s = (Inr (), s\<lparr>issued := issued s @ [e]\<rparr>)"

definition modify_store :: "(db \<Rightarrow> db) \<Rightarrow> unit tx" where
  "modify_store f s = (Inr (), s\<lparr>store := f (store s)\<rparr>)"

section \<open>Statements\<close>

text \<open>A value fits \<^verbatim>\<open>DECIMAL(20, 8)\<close> when its magnitude is below \<open>10\<^sup>1\<^sup>2\<close>.\<close>

definition numeric_ok :: "money \<Rightarrow> bool" where
  "numeric_ok v = (\<bar>v\<bar> < 10 ^ 20)"

text \<open>\<^verbatim>\<open>FOR UPDATE NOWAIT\<close> over the selected rows, in the order given.\<close>

fun lock_rows :: "env \<Rightarrow> uuid list \<Rightarrow> unit tx" where
  "lock_rows env [] s = (Inr (), s)"
| "lock_rows env (i # rest) s =
     (if i \<in> set (busy env) then (Inl (DbError LockNotAvailable), s)
      else lock_rows env rest (s\<lparr>issued := issued s @ [LockRow i]\<rparr>))"

text \<open>
  Each query is a function from the tables to the rows it returns (the \<^verbatim>\<open>id\<close>
  column, in table order), wrapped in a statement that logs it.

  \<^verbatim>\<open>SELECT id FROM asset_types WHERE code = $1 AND is_active = true\<close>
\<close>

definition asset_type_rows :: "string \<Rightarrow> db \<Rightarrow> uuid list" where
  "asset_type_rows code d =
     map at_id (filter (\<lambda>a. at_code a = code \<and> at_is_active a) (asset_types d))"

definition select_asset_type :: "string \<Rightarrow> uuid list tx" where
  "select_asset_type code =
     and_then (emit (SelectAssetType code)) (\<lambda>_ s. ret (asset_type_rows code (store s)) s)"

text \<open>\<^verbatim>\<open>SELECT id FROM accounts WHERE user_id = $1 AND is_active = true\<close>\<close>

definition user_account_rows :: "string \<Rightarrow> db \<Rightarrow> uuid list" where
  "user_account_rows user d =
     map acc_id (filter (\<lambda>a. acc_user_id a = Some user \<and> acc_is_active a) (accounts d))"

definition select_user_account :: "string \<Rightarrow> uuid list tx" where
  "select_user_account user =
     and_then (emit (SelectUserAccount user)) (\<lambda>_ s. ret (user_account_rows user (store s)) s)"

text \<open>The same query with \<^verbatim>\<open>FOR UPDATE NOWAIT\<close>: every selected row is locked.\<close>

definition select_user_account_for_update :: "env \<Rightarrow> string \<Rightarrow> uuid list tx" where
  "select_user_account_for_update env user =
     and_then (emit (SelectUserAccount user)) (\<lambda>_ s.
       and_then (lock_rows env (user_account_rows user (store s))) (\<lambda>_.
         ret (user_account_rows user (store s))) s)"

text \<open>\<^verbatim>\<open>SELECT a.id FROM accounts a JOIN account_types at ON a.account_type_id = at.id
  WHERE at.code = $code AND a.is_active = true\<close>\<close>

definition system_account_rows :: "string \<Rightarrow> db \<Rightarrow> uuid list" where
  "system_account_rows code d =
     map acc_id (filter (\<lambda>a. (acc_account_type_id a, code) \<in> set (account_types d)
                              \<and> acc_is_active a) (accounts d))"

definition select_system_account :: "string \<Rightarrow> uuid list tx" where
  "select_system_account code =
     and_then (emit (SelectSystemAccount code)) (\<lambda>_ s.
       ret (system_account_rows code (store s)) s)"

text \<open>\<^verbatim>\<open>SELECT id FROM accounts WHERE id = $1 FOR UPDATE NOWAIT\<close>\<close>

definition account_rows_by_id :: "uuid list \<Rightarrow> db \<Rightarrow> uuid list" where
  "account_rows_by_id ids d = map acc_id (filter (\<lambda>a. acc_id a \<in> set ids) (accounts d))"

definition lock_account :: "env \<Rightarrow> uuid \<Rightarrow> unit tx" where
  "lock_account env i s = lock_rows env (account_rows_by_id [i] (store s)) s"

text \<open>\<^verbatim>\<open>SELECT id FROM accounts WHERE id = ANY($1) ORDER BY id FOR UPDATE NOWAIT\<close>:
  the rows are sorted before they are locked.\<close>

definition lock_accounts_ordered :: "env \<Rightarrow> uuid list \<Rightarrow> unit tx" where
  "lock_accounts_ordered env ids s =
     lock_rows env (sort (account_rows_by_id ids (store s))) s"

text \<open>\<^verbatim>\<open>SELECT id FROM transaction_types WHERE code = $1\<close>\<close>

definition transaction_type_rows :: "string \<Rightarrow> db \<Rightarrow> uuid list" where
  "transaction_type_rows code d = map fst (filter (\<lambda>t. snd t = code) (transaction_types d))"

definition select_transaction_type :: "string \<Rightarrow> uuid list tx" where
  "select_transaction_type code =
     and_then (emit (SelectTransactionType code)) (\<lambda>_ s.
       ret (transaction_type_rows code (store s)) s)"

text \<open>
  \<^verbatim>\<open>INSERT INTO transactions\<close>. The column type, the two \<^verbatim>\<open>CHECK\<close> constraints,
  the primary key and the unique index on \<^verbatim>\<open>idempotency_key\<close> are enforced.
\<close>

definition insert_transaction :: "transaction_row \<Rightarrow> unit tx" where
  "insert_transaction row =
     and_then (emit (InsertTransaction (tx_id row))) (\<lambda>_ s.
       if \<not> numeric_ok (tx_amount row) then throw (DbError NumericValueOutOfRange) s
       else if \<not> 0 < tx_amount row
               \<or> tx_status row \<notin> {''pending'', ''completed'', ''failed'', ''reversed''}
            then throw (DbError CheckViolation) s
       else if tx_id row \<in> tx_id ` set (transactions (store s))
               \<or> tx_idempotency_key row \<in> tx_idempotency_key ` set (transactions (store s))
            then throw (DbError UniqueViolation) s
       else modify_store (\<lambda>d. d\<lparr>transactions := transactions d @ [row]\<rparr>) s)"

text \<open>\<^verbatim>\<open>INSERT INTO ledger_entries\<close>, with its column types and its \<^verbatim>\<open>CHECK\<close>.\<close>

definition insert_ledger_entry :: "ledger_entry \<Rightarrow> unit tx" where
  "insert_ledger_entry row =
     and_then (emit (InsertLedgerEntry (le_entry_type row) (le_account_id row))) (\<lambda>_ s.
       if \<not> numeric_ok (le_amount row) \<or> \<not> numeric_ok (le_running_balance row)
         then throw (DbError NumericValueOutOfRange) s
       else if \<not> 0 < le_amount row then throw (DbError CheckViolation) s
       else modify_store (\<lambda>d. d\<lparr>ledger_entries := ledger_entries d @ [row]\<rparr>) s)"

text \<open>\<^verbatim>\<open>INSERT INTO idempotency_log\<close>; the key is the primary key.\<close>

definition insert_idempotency :: "string \<Rightarrow> idempotency_row \<Rightarrow> unit tx" where
  "insert_idempotency k row =
     and_then (emit (InsertIdempotency k)) (\<lambda>_ s.
       if k \<in> dom (idempotency_log (store s)) then throw (DbError UniqueViolation) s
       else modify_store (\<lambda>d. d\<lparr>idempotency_log := (idempotency_log d)(k \<mapsto> row)\<rparr>) s)"

text \<open>\<^verbatim>\<open>COMMIT\<close>\<close>

definition commit :: "env \<Rightarrow> unit tx" where
  "commit env =
     and_then (emit Commit) (\<lambda>_.
       case commit_fault env of Some e \<Rightarrow> throw (DbError e) | None \<Rightarrow> ret ())"

section \<open>Helper methods of the transaction service\<close>

text \<open>The idempotency records live 24 hours.\<close>

definition idempotency_ttl :: timestamp where
  "idempotency_ttl = 86400000"

text \<open>\<^verbatim>\<open>_checkIdempotency\<close>: the row is selected only while
  \<^verbatim>\<open>expires_at > CURRENT_TIMESTAMP\<close>.\<close>

definition checkIdempotency :: "string \<Rightarrow> timestamp \<Rightarrow> db \<Rightarrow> response option" where
  "checkIdempotency idempotencyKey t d =
     (case idempotency_log d idempotencyKey of
        None \<Rightarrow> None
      | Some row \<Rightarrow>
          if t < il_expires_at row \<and> il_status row = ''completed''
          then Some (il_response_data row) else None)"

text \<open>\<^verbatim>\<open>_getBalance\<close>: a missing cache row reads as zero.\<close>

definition cached_balance :: "db \<Rightarrow> uuid \<Rightarrow> uuid \<Rightarrow> money" where
  "cached_balance d accountId assetTypeId =
     (case balance_cache d (accountId, assetTypeId) of
        Some row \<Rightarrow> bc_balance row
      | None \<Rightarrow> 0)"

definition getBalance :: "uuid \<Rightarrow> uuid \<Rightarrow> money tx" where
  "getBalance accountId assetTypeId =
     and_then (emit (SelectBalance accountId assetTypeId)) (\<lambda>_ s.
       ret (cached_balance (store s) accountId assetTypeId) s)"

text \<open>\<^verbatim>\<open>_updateBalanceCache\<close>: an upsert on the primary key
  \<^verbatim>\<open>(account_id, asset_type_id)\<close>, under \<^verbatim>\<open>CHECK (balance >= 0)\<close>.\<close>

definition updateBalanceCache :: "env \<Rightarrow> uuid \<Rightarrow> uuid \<Rightarrow> money \<Rightarrow> uuid \<Rightarrow> unit tx" where
  "updateBalanceCache env accountId assetTypeId newBalance transactionId =
     and_then (emit (UpsertBalance accountId assetTypeId)) (\<lambda>_ s.
       if \<not> numeric_ok newBalance then throw (DbError NumericValueOutOfRange) s
       else if \<not> 0 \<le> newBalance then throw (DbError CheckViolation) s
       else modify_store (\<lambda>d. d\<lparr>balance_cache := (balance_cache d)((accountId, assetTypeId) \<mapsto>
              \<lparr>bc_balance = newBalance, bc_last_transaction_id = transactionId,
               bc_updated_at = now env\<rparr>)\<rparr>) s)"

text \<open>\<^verbatim>\<open>_createAuditLog\<close>\<close>

definition createAuditLog :: "audit_row \<Rightarrow> unit tx" where
  "createAuditLog row =
     and_then (emit (InsertAuditLog (au_action row))) (\<lambda>_.
       modify_store (\<lambda>d. d\<lparr>audit_log := audit_log d @ [row]\<rparr>))"

text \<open>\<^verbatim>\<open>a || b\<close> on optional strings: the empty string is falsy.\<close>

definition js_or :: "string option \<Rightarrow> string option \<Rightarrow> string option" where
  "js_or a b = (case a of Some x \<Rightarrow> if x \<noteq> [] then Some x else b | None \<Rightarrow> b)"

text \<open>\<^verbatim>\<open>text || template\<close> for the description column.\<close>

definition or_default :: "string option \<Rightarrow> description \<Rightarrow> description" where
  "or_default a d = (case a of Some x \<Rightarrow> if x \<noteq> [] then Custom x else d | None \<Rightarrow> d)"

text \<open>The \<^verbatim>\<open>catch\<close> block of the three transaction methods: \<^verbatim>\<open>ROLLBACK\<close> discards
  every write made since \<^verbatim>\<open>BEGIN\<close>, and the error is thrown again.\<close>

definition rollback_on_error :: "'a tx \<Rightarrow> 'a tx" where
  "rollback_on_error body s =
     (case body s of
        (Inr r, s') \<Rightarrow> (Inr r, s')
      | (Inl e, s') \<Rightarrow> (Inl e, \<lparr>store = store s, issued = issued s' @ [Rollback]\<rparr>))"

record request =
  userId :: string
  assetCode :: string
  amount :: money
  idempotencyKey :: string
  metadata :: metadata

section \<open>Top-up\<close>

text \<open>The \<^verbatim>\<open>try\<close> block of \<^verbatim>\<open>_executeTopUpTransaction\<close>.\<close>

definition topUp_body :: "request \<Rightarrow> env \<Rightarrow> response tx" where
  "topUp_body req env =
     and_then (emit Begin) (\<lambda>_.
     and_then (select_asset_type (assetCode req)) (\<lambda>assetResult.
     case assetResult of [] \<Rightarrow> throw (AssetNotFound (assetCode req)) | assetTypeId # _ \<Rightarrow>
     and_then (select_user_account_for_update env (userId req)) (\<lambda>userAccountResult.
     case userAccountResult of [] \<Rightarrow> throw (UserAccountNotFound (userId req))
     | userAccountId # _ \<Rightarrow>
     and_then (select_system_account ''SYSTEM_TREASURY'') (\<lambda>treasuryResult.
     case treasuryResult of [] \<Rightarrow> throw (SystemAccountNotFound ''SYSTEM_TREASURY'')
     | treasuryAccountId # _ \<Rightarrow>
     let accountIds = sort [userAccountId, treasuryAccountId] in
     and_then (if accountIds ! 0 \<noteq> userAccountId then lock_account env (accountIds ! 0)
               else ret ()) (\<lambda>_.
     and_then (if accountIds ! 1 \<noteq> userAccountId then lock_account env (accountIds ! 1)
               else ret ()) (\<lambda>_.
     and_then (select_transaction_type ''TOP_UP'') (\<lambda>txnTypeResult.
     case txnTypeResult of [] \<Rightarrow> throw TypeError | transactionTypeId # _ \<Rightarrow>
     let transactionId = uuid env;
         description =
           or_default (md_description (metadata req)) (TopUpText (amount req) (assetCode req))
     in
     and_then (insert_transaction
       \<lparr>tx_id = transactionId, tx_idempotency_key = idempotencyKey req,
        tx_transaction_type_id = transactionTypeId, tx_asset_type_id = assetTypeId,
        tx_amount = amount req, tx_description = description, tx_metadata = metadata req,
        tx_status = ''completed'', tx_created_at = now env,
        tx_completed_at = Some (now env)\<rparr>) (\<lambda>_.
     and_then (getBalance treasuryAccountId assetTypeId) (\<lambda>treasuryBalance.
     and_then (getBalance userAccountId assetTypeId) (\<lambda>userBalance.
     and_then (emit CheckFunds) (\<lambda>_.
     if treasuryBalance < amount req then throw (InsufficientFunds TreasuryShort) else
     let newTreasuryBalance = treasuryBalance - amount req;
         newUserBalance = userBalance + amount req
     in
     and_then (insert_ledger_entry
       \<lparr>le_transaction_id = transactionId, le_account_id = treasuryAccountId,
        le_asset_type_id = assetTypeId, le_entry_type = Debit, le_amount = amount req,
        le_running_balance = newTreasuryBalance,
        le_description = ''Debit from treasury for user top-up'',
        le_created_at = now env\<rparr>) (\<lambda>_.
     and_then (insert_ledger_entry
       \<lparr>le_transaction_id = transactionId, le_account_id = userAccountId,
        le_asset_type_id = assetTypeId, le_entry_type = Credit, le_amount = amount req,
        le_running_balance = newUserBalance,
        le_description = ''Credit to user wallet'',
        le_created_at = now env\<rparr>) (\<lambda>_.
     and_then (updateBalanceCache env treasuryAccountId assetTypeId newTreasuryBalance
                 transactionId) (\<lambda>_.
     and_then (updateBalanceCache env userAccountId assetTypeId newUserBalance
                 transactionId) (\<lambda>_.
     let responseData =
       \<lparr>res_transactionId = transactionId, res_userId = userId req,
        res_assetCode = assetCode req, res_amount = amount req,
        res_newBalance = newUserBalance, res_reason = None, res_item = None,
        res_timestamp = now env\<rparr>
     in
     and_then (insert_idempotency (idempotencyKey req)
       \<lparr>il_request_hash = (userId req, assetCode req, amount req),
        il_response_data = responseData, il_status = ''completed'',
        il_created_at = now env, il_expires_at = now env + idempotency_ttl\<rparr>) (\<lambda>_.
     and_then (createAuditLog
       \<lparr>au_transaction_id = transactionId, au_account_id = userAccountId,
        au_action = ''TOP_UP'', au_request_userId = userId req,
        au_request_assetCode = assetCode req, au_request_amount = amount req,
        au_request_idempotencyKey = Some (idempotencyKey req),
        au_request_reason = None, au_request_item = None\<rparr>) (\<lambda>_.
     and_then (commit env) (\<lambda>_.
     ret responseData))))))))))))))))))"

text \<open>\<^verbatim>\<open>_executeTopUpTransaction\<close>\<close>

definition executeTopUpTransaction :: "request \<Rightarrow> env \<Rightarrow> response tx" where
  "executeTopUpTransaction req env = rollback_on_error (topUp_body req env)"

section \<open>Bonus\<close>

text \<open>The \<^verbatim>\<open>try\<close> block of \<^verbatim>\<open>_executeIssueBonusTransaction\<close>.\<close>

definition issueBonus_body :: "request \<Rightarrow> env \<Rightarrow> response tx" where
  "issueBonus_body req env =
     and_then (emit Begin) (\<lambda>_.
     and_then (select_asset_type (assetCode req)) (\<lambda>assetResult.
     case assetResult of [] \<Rightarrow> throw (AssetNotFound (assetCode req)) | assetTypeId # _ \<Rightarrow>
     and_then (select_user_account (userId req)) (\<lambda>userAccountResult.
     case userAccountResult of [] \<Rightarrow> throw (UserAccountNotFound (userId req))
     | userAccountId # _ \<Rightarrow>
     and_then (select_system_account ''SYSTEM_BONUS'') (\<lambda>bonusPoolResult.
     case bonusPoolResult of [] \<Rightarrow> throw (SystemAccountNotFound ''SYSTEM_BONUS'')
     | bonusPoolAccountId # _ \<Rightarrow>
     let accountIds = sort [userAccountId, bonusPoolAccountId] in
     and_then (lock_accounts_ordered env accountIds) (\<lambda>_.
     and_then (select_transaction_type ''BONUS'') (\<lambda>txnTypeResult.
     case txnTypeResult of [] \<Rightarrow> throw TypeError | transactionTypeId # _ \<Rightarrow>
     let transactionId = uuid env;
         description =
           or_default (md_reason (metadata req)) (BonusText (amount req) (assetCode req))
     in
     and_then (insert_transaction
       \<lparr>tx_id = transactionId, tx_idempotency_key = idempotencyKey req,
        tx_transaction_type_id = transactionTypeId, tx_asset_type_id = assetTypeId,
        tx_amount = amount req, tx_description = description, tx_metadata = metadata req,
        tx_status = ''completed'', tx_created_at = now env,
        tx_completed_at = Some (now env)\<rparr>) (\<lambda>_.
     and_then (getBalance bonusPoolAccountId assetTypeId) (\<lambda>bonusPoolBalance.
     and_then (getBalance userAccountId assetTypeId) (\<lambda>userBalance.
     and_then (emit CheckFunds) (\<lambda>_.
     if bonusPoolBalance < amount req then throw (InsufficientFunds BonusPoolShort) else
     let newBonusPoolBalance = bonusPoolBalance - amount req;
         newUserBalance = userBalance + amount req
     in
     and_then (insert_ledger_entry
       \<lparr>le_transaction_id = transactionId, le_account_id = bonusPoolAccountId,
        le_asset_type_id = assetTypeId, le_entry_type = Debit, le_amount = amount req,
        le_running_balance = newBonusPoolBalance,
        le_description = ''Debit from bonus pool'',
        le_created_at = now env\<rparr>) (\<lambda>_.
     and_then (insert_ledger_entry
       \<lparr>le_transaction_id = transactionId, le_account_id = userAccountId,
        le_asset_type_id = assetTypeId, le_entry_type = Credit, le_amount = amount req,
        le_running_balance = newUserBalance,
        le_description = ''Bonus credit to user'',
        le_created_at = now env\<rparr>) (\<lambda>_.
     and_then (updateBalanceCache env bonusPoolAccountId assetTypeId newBonusPoolBalance
                 transactionId) (\<lambda>_.
     and_then (updateBalanceCache env userAccountId assetTypeId newUserBalance
                 transactionId) (\<lambda>_.
     let responseData =
       \<lparr>res_transactionId = transactionId, res_userId = userId req,
        res_assetCode = assetCode req, res_amount = amount req,
        res_newBalance = newUserBalance, res_reason = md_reason (metadata req),
        res_item = None, res_timestamp = now env\<rparr>
     in
     and_then (insert_idempotency (idempotencyKey req)
       \<lparr>il_request_hash = (userId req, assetCode req, amount req),
        il_response_data = responseData, il_status = ''completed'',
        il_created_at = now env, il_expires_at = now env + idempotency_ttl\<rparr>) (\<lambda>_.
     and_then (createAuditLog
       \<lparr>au_transaction_id = transactionId, au_account_id = userAccountId,
        au_action = ''BONUS'', au_request_userId = userId req,
        au_request_assetCode = assetCode req, au_request_amount = amount req,
        au_request_idempotencyKey = None,
        au_request_reason = md_reason (metadata req), au_request_item = None\<rparr>) (\<lambda>_.
     and_then (commit env) (\<lambda>_.
     ret responseData)))))))))))))))))"

text \<open>\<^verbatim>\<open>_executeIssueBonusTransaction\<close>\<close>

definition executeIssueBonusTransaction :: "request \<Rightarrow> env \<Rightarrow> response tx" where
  "executeIssueBonusTransaction req env = rollback_on_error (issueBonus_body req env)"

section \<open>Purchase\<close>

text \<open>The \<^verbatim>\<open>try\<close> block of \<^verbatim>\<open>_executePurchaseTransaction\<close>.\<close>

definition purchase_body :: "request \<Rightarrow> env \<Rightarrow> response tx" where
  "purchase_body req env =
     and_then (emit Begin) (\<lambda>_.
     and_then (select_asset_type (assetCode req)) (\<lambda>assetResult.
     case assetResult of [] \<Rightarrow> throw (AssetNotFound (assetCode req)) | assetTypeId # _ \<Rightarrow>
     and_then (select_user_account (userId req)) (\<lambda>userAccountResult.
     case userAccountResult of [] \<Rightarrow> throw (UserAccountNotFound (userId req))
     | userAccountId # _ \<Rightarrow>
     and_then (select_system_account ''SYSTEM_REVENUE'') (\<lambda>revenueResult.
     case revenueResult of [] \<Rightarrow> throw (SystemAccountNotFound ''SYSTEM_REVENUE'')
     | revenueAccountId # _ \<Rightarrow>
     let accountIds = sort [userAccountId, revenueAccountId] in
     and_then (lock_accounts_ordered env accountIds) (\<lambda>_.
     and_then (select_transaction_type ''PURCHASE'') (\<lambda>txnTypeResult.
     case txnTypeResult of [] \<Rightarrow> throw TypeError | transactionTypeId # _ \<Rightarrow>
     and_then (getBalance userAccountId assetTypeId) (\<lambda>userBalance.
     and_then (emit CheckFunds) (\<lambda>_.
     if userBalance < amount req
     then throw (InsufficientFunds (BalanceShort userBalance (amount req))) else
     let transactionId = uuid env;
         description =
           (case md_itemName (metadata req) of
              Some itemName \<Rightarrow>
                if itemName \<noteq> [] then PurchaseItemText itemName (amount req) (assetCode req)
                else PurchaseText (amount req) (assetCode req)
            | None \<Rightarrow> PurchaseText (amount req) (assetCode req))
     in
     and_then (insert_transaction
       \<lparr>tx_id = transactionId, tx_idempotency_key = idempotencyKey req,
        tx_transaction_type_id = transactionTypeId, tx_asset_type_id = assetTypeId,
        tx_amount = amount req, tx_description = description, tx_metadata = metadata req,
        tx_status = ''completed'', tx_created_at = now env,
        tx_completed_at = Some (now env)\<rparr>) (\<lambda>_.
     and_then (getBalance revenueAccountId assetTypeId) (\<lambda>revenueBalance.
     let newUserBalance = userBalance - amount req;
         newRevenueBalance = revenueBalance + amount req
     in
     and_then (insert_ledger_entry
       \<lparr>le_transaction_id = transactionId, le_account_id = userAccountId,
        le_asset_type_id = assetTypeId, le_entry_type = Debit, le_amount = amount req,
        le_running_balance = newUserBalance,
        le_description = ''Debit from user for purchase'',
        le_created_at = now env\<rparr>) (\<lambda>_.
     and_then (insert_ledger_entry
       \<lparr>le_transaction_id = transactionId, le_account_id = revenueAccountId,
        le_asset_type_id = assetTypeId, le_entry_type = Credit, le_amount = amount req,
        le_running_balance = newRevenueBalance,
        le_description = ''Revenue from user purchase'',
        le_created_at = now env\<rparr>) (\<lambda>_.
     and_then (updateBalanceCache env userAccountId assetTypeId newUserBalance
                 transactionId) (\<lambda>_.
     and_then (updateBalanceCache env revenueAccountId assetTypeId newRevenueBalance
                 transactionId) (\<lambda>_.
     let responseData =
       \<lparr>res_transactionId = transactionId, res_userId = userId req,
        res_assetCode = assetCode req, res_amount = amount req,
        res_newBalance = newUserBalance, res_reason = None,
        res_item = js_or (md_itemName (metadata req)) (md_itemId (metadata req)),
        res_timestamp = now env\<rparr>
     in
     and_then (insert_idempotency (idempotencyKey req)
       \<lparr>il_request_hash = (userId req, assetCode req, amount req),
        il_response_data = responseData, il_status = ''completed'',
        il_created_at = now env, il_expires_at = now env + idempotency_ttl\<rparr>) (\<lambda>_.
     and_then (createAuditLog
       \<lparr>au_transaction_id = transactionId, au_account_id = userAccountId,
        au_action = ''PURCHASE'', au_request_userId = userId req,
        au_request_assetCode = assetCode req, au_request_amount = amount req,
        au_request_idempotencyKey = None, au_request_reason = None,
        au_request_item = js_or (md_itemName (metadata req)) (md_itemId (metadata req))\<rparr>) (\<lambda>_.
     and_then (commit env) (\<lambda>_.
     ret responseData)))))))))))))))))"

text \<open>\<^verbatim>\<open>_executePurchaseTransaction\<close>\<close>

definition executePurchaseTransaction :: "request \<Rightarrow> env \<Rightarrow> response tx" where
  "executePurchaseTransaction req env = rollback_on_error (purchase_body req env)"

section \<open>The retry driver (db.js)\<close>

definition isRetriable :: "error \<Rightarrow> bool" where
  "isRetriable e =
     (error_code e = Some ''40P01'' \<or> error_code e = Some ''40001''
      \<or> error_code e = Some ''55P03'')"

text \<open>
  The \<^verbatim>\<open>for\<close> loop of \<^verbatim>\<open>executeWithRetry\<close>, entered at \<open>attempt\<close>. Each attempt
  meets its own outside world \<open>envs attempt\<close>. The \<^verbatim>\<open>throw lastError\<close> after the
  loop is reached only when the loop body never ran.
\<close>

function executeWithRetry_from ::
  "nat \<Rightarrow> error option \<Rightarrow> (env \<Rightarrow> 'a tx) \<Rightarrow> nat \<Rightarrow> (nat \<Rightarrow> env) \<Rightarrow> 'a tx" where
  "executeWithRetry_from attempt lastError queryFunction maxRetries envs s =
     (if attempt \<le> maxRetries then
        (case queryFunction (envs attempt) s of
           (Inr r, s') \<Rightarrow> (Inr r, s')
         | (Inl e, s') \<Rightarrow>
             if \<not> isRetriable e \<or> attempt = maxRetries then (Inl e, s')
             else executeWithRetry_from (attempt + 1) (Some e) queryFunction maxRetries envs
                    (s'\<lparr>issued := issued s' @ [Sleep attempt]\<rparr>))
      else (case lastError of Some e \<Rightarrow> (Inl e, s) | None \<Rightarrow> (Inl ThrownUndefined, s)))"
  by pat_completeness auto
termination
  by (relation "measure (\<lambda>(attempt, lastError, queryFunction, maxRetries, envs, s).
                  Suc maxRetries - attempt)") auto

declare executeWithRetry_from.simps [simp del]

definition executeWithRetry :: "(env \<Rightarrow> 'a tx) \<Rightarrow> nat \<Rightarrow> (nat \<Rightarrow> env) \<Rightarrow> 'a tx" where
  "executeWithRetry queryFunction maxRetries envs =
     executeWithRetry_from 1 None queryFunction maxRetries envs"

section \<open>The three operations\<close>

text \<open>
  What one call takes from outside: the clock at the fast-path lookup, what other
  workers commit between that lookup and the call's own transaction (the call is
  suspended at each \<^verbatim>\<open>await\<close>), and the world each attempt meets.
\<close>

record call_env =
  lookup_now :: timestamp
  interleaved :: "db \<Rightarrow> db"
  attempts :: "nat \<Rightarrow> env"

definition topUp :: "request \<Rightarrow> call_env \<Rightarrow> response tx" where
  "topUp req c =
     (if userId req = [] \<or> assetCode req = [] \<or> amount req = 0 \<or> idempotencyKey req = []
      then throw MissingParameters
      else if amount req \<le> 0 then throw AmountNotPositive
      else
        and_then (emit (SelectIdempotency (idempotencyKey req))) (\<lambda>_ s.
          case checkIdempotency (idempotencyKey req) (lookup_now c) (store s) of
            Some existingResult \<Rightarrow> ret existingResult s
          | None \<Rightarrow>
              and_then (modify_store (interleaved c)) (\<lambda>_.
                executeWithRetry (executeTopUpTransaction req) 3 (attempts c)) s))"

definition issueBonus :: "request \<Rightarrow> call_env \<Rightarrow> response tx" where
  "issueBonus req c =
     (if userId req = [] \<or> assetCode req = [] \<or> amount req = 0 \<or> idempotencyKey req = []
      then throw MissingParameters
      else if amount req \<le> 0 then throw AmountNotPositive
      else
        and_then (emit (SelectIdempotency (idempotencyKey req))) (\<lambda>_ s.
          case checkIdempotency (idempotencyKey req) (lookup_now c) (store s) of
            Some existingResult \<Rightarrow> ret existingResult s
          | None \<Rightarrow>
              and_then (modify_store (interleaved c)) (\<lambda>_.
                executeWithRetry (executeIssueBonusTransaction req) 3 (attempts c)) s))"

definition purchase :: "request \<Rightarrow> call_env \<Rightarrow> response tx" where
  "purchase req c =
     (if userId req = [] \<or> assetCode req = [] \<or> amount req = 0 \<or> idempotencyKey req = []
      then throw MissingParameters
      else if amount req \<le> 0 then throw AmountNotPositive
      else
        and_then (emit (SelectIdempotency (idempotencyKey req))) (\<lambda>_ s.
          case checkIdempotency (idempotencyKey req) (lookup_now c) (store s) of
            Some existingResult \<Rightarrow> ret existingResult s
          | None \<Rightarrow>
              and_then (modify_store (interleaved c)) (\<lambda>_.
                executeWithRetry (executePurchaseTransaction req) 3 (attempts c)) s))"

datatype operation = TopUp | IssueBonus | Purchase

fun executeTransaction :: "operation \<Rightarrow> request \<Rightarrow> env \<Rightarrow> response tx" where
  "executeTransaction TopUp = executeTopUpTransaction"
| "executeTransaction IssueBonus = executeIssueBonusTransaction"
| "executeTransaction Purchase = executePurchaseTransaction"

fun movement :: "operation \<Rightarrow> request \<Rightarrow> call_env \<Rightarrow> response tx" where
  "movement TopUp = topUp"
| "movement IssueBonus = issueBonus"
| "movement Purchase = purchase"

fun transaction_body :: "operation \<Rightarrow> request \<Rightarrow> env \<Rightarrow> response tx" where
  "transaction_body TopUp = topUp_body"
| "transaction_body IssueBonus = issueBonus_body"
| "transaction_body Purchase = purchase_body"

section \<open>Vocabulary of the properties\<close>

text \<open>The system counterparty and the transaction type of each operation, and which of
  the user account \<open>u\<close> and the counterparty \<open>c\<close> is debited and which is credited.\<close>

fun system_code :: "operation \<Rightarrow> string" where
  "system_code TopUp = ''SYSTEM_TREASURY''"
| "system_code IssueBonus = ''SYSTEM_BONUS''"
| "system_code Purchase = ''SYSTEM_REVENUE''"


fun source_account :: "operation \<Rightarrow> uuid \<Rightarrow> uuid \<Rightarrow> uuid" where
  "source_account Purchase u c = u"
| "source_account _ u c = c"

fun destination_account :: "operation \<Rightarrow> uuid \<Rightarrow> uuid \<Rightarrow> uuid" where
  "destination_account Purchase u c = c"
| "destination_account _ u c = u"

text \<open>The input checks at the head of the three operations.\<close>

definition valid_request :: "request \<Rightarrow> bool" where
  "valid_request req =
     (userId req \<noteq> [] \<and> assetCode req \<noteq> [] \<and> amount req \<noteq> 0 \<and> idempotencyKey req \<noteq> []
      \<and> 0 < amount req)"

definition entries_of :: "uuid \<Rightarrow> db \<Rightarrow> ledger_entry list" where
  "entries_of tid d = filter (\<lambda>e. le_transaction_id e = tid) (ledger_entries d)"

definition headers_with_id :: "uuid \<Rightarrow> db \<Rightarrow> transaction_row list" where
  "headers_with_id tid d = filter (\<lambda>t. tx_id t = tid) (transactions d)"


text \<open>\<^verbatim>\<open>ledger_entries.transaction_id REFERENCES transactions(id)\<close>\<close>

definition entries_reference_headers :: "db \<Rightarrow> bool" where
  "entries_reference_headers d =
     list_all (\<lambda>e. le_transaction_id e \<in> tx_id ` set (transactions d)) (ledger_entries d)"




text \<open>The row locks of a log, in the order they were obtained.\<close>

definition locks_taken :: "event list \<Rightarrow> uuid list" where
  "locks_taken evs = concat (map (\<lambda>e. case e of LockRow i \<Rightarrow> [i] | _ \<Rightarrow> []) evs)"

text \<open>The first row of each lookup of a movement: asset \<open>a\<close>, user account \<open>u\<close>,
  counterparty \<open>c\<close>.\<close>

definition resolves :: "operation \<Rightarrow> request \<Rightarrow> db \<Rightarrow> uuid \<Rightarrow> uuid \<Rightarrow> uuid \<Rightarrow> bool" where
  "resolves op req d a u c =
     (take 1 (asset_type_rows (assetCode req) d) = [a]
      \<and> take 1 (user_account_rows (userId req) d) = [u]
      \<and> take 1 (system_account_rows (system_code op) d) = [c])"



text \<open>The steps of the ledger writer among the events of a log: the row locks, the
  balance reads, the balance test and the writes. The lookups that resolve the asset,
  the accounts and the transaction type are left out.\<close>

fun is_step :: "event \<Rightarrow> bool" where
  "is_step (LockRow i) = True"
| "is_step (SelectBalance acct a) = True"
| "is_step CheckFunds = True"
| "is_step (InsertTransaction i) = True"
| "is_step (InsertLedgerEntry t acct) = True"
| "is_step (UpsertBalance acct a) = True"
| "is_step (InsertIdempotency k) = True"
| "is_step (InsertAuditLog k) = True"
| "is_step Commit = True"
| "is_step _ = False"







text \<open>The header of the request can be inserted: the amount fits the column and its
  check, the identifier and the idempotency key are new to the table.\<close>

definition header_insertable :: "request \<Rightarrow> env \<Rightarrow> db \<Rightarrow> bool" where
  "header_insertable req env d =
     (numeric_ok (amount req) \<and> 0 < amount req
      \<and> uuid env \<notin> tx_id ` set (transactions d)
      \<and> idempotencyKey req \<notin> tx_idempotency_key ` set (transactions d))"





text \<open>Every header that was not among \<open>old\<close> is completed and says when.\<close>

definition new_headers_completed :: "transaction_row list \<Rightarrow> db \<Rightarrow> bool" where
  "new_headers_completed old d =
     (\<forall>h\<in>set (transactions d).
        h \<in> set old \<or> (tx_status h = ''completed'' \<and> tx_completed_at h \<noteq> None))"

text \<open>The statement \<open>m\<close> keeps the property \<open>I\<close> of the tables, whether it succeeds or
  fails.\<close>

definition keeps :: "(db \<Rightarrow> bool) \<Rightarrow> 'a tx \<Rightarrow> bool" where
  "keeps I m = (\<forall>s R s'. I (store s) \<longrightarrow> m s = (R, s') \<longrightarrow> I (store s'))"

text \<open>A failed attempt of \<open>f\<close> leaves the tables as they were.\<close>

definition atomic :: "(env \<Rightarrow> 'a tx) \<Rightarrow> bool" where
  "atomic f = (\<forall>env s e s'. f env s = (Inl e, s') \<longrightarrow> store s' = store s)"

section \<open>A seeded database\<close>

text \<open>One asset, the three system accounts and one user; the treasury holds 1000, the
  bonus pool 300 and the user 500, each from one seed credit.\<close>

definition no_metadata :: metadata where
  "no_metadata =
     \<lparr>md_description = None, md_reason = None, md_itemName = None, md_itemId = None\<rparr>"

definition seed_entry :: "uuid \<Rightarrow> money \<Rightarrow> ledger_entry" where
  "seed_entry acct v =
     \<lparr>le_transaction_id = 50, le_account_id = acct, le_asset_type_id = 3,
      le_entry_type = Credit, le_amount = v, le_running_balance = v,
      le_description = ''seed'', le_created_at = 0\<rparr>"

definition seed_balance :: "money \<Rightarrow> balance_row" where
  "seed_balance v = \<lparr>bc_balance = v, bc_last_transaction_id = 50, bc_updated_at = 0\<rparr>"

definition seeded :: db where
  "seeded =
     \<lparr>asset_types = [\<lparr>at_id = 3, at_code = ''GOLD_COIN'', at_is_active = True\<rparr>],
      account_types = [(10, ''USER''), (11, ''SYSTEM_TREASURY''), (12, ''SYSTEM_REVENUE''),
                       (13, ''SYSTEM_BONUS'')],
      accounts =
        [\<lparr>acc_id = 100, acc_account_type_id = 11, acc_user_id = None, acc_is_active = True\<rparr>,
         \<lparr>acc_id = 101, acc_account_type_id = 12, acc_user_id = None, acc_is_active = True\<rparr>,
         \<lparr>acc_id = 102, acc_account_type_id = 13, acc_user_id = None, acc_is_active = True\<rparr>,
         \<lparr>acc_id = 200, acc_account_type_id = 10, acc_user_id = Some ''user_001'',
          acc_is_active = True\<rparr>],
      transaction_types = [(20, ''TOP_UP''), (21, ''BONUS''), (22, ''PURCHASE'')],
      transactions =
        [\<lparr>tx_id = 50, tx_idempotency_key = ''seed'', tx_transaction_type_id = 20,
          tx_asset_type_id = 3, tx_amount = 1800, tx_description = Custom ''seed'',
          tx_metadata = no_metadata, tx_status = ''completed'', tx_created_at = 0,
          tx_completed_at = Some 0\<rparr>],
      ledger_entries = [seed_entry 100 1000, seed_entry 102 300, seed_entry 200 500],
      balance_cache =
        [(100, 3) \<mapsto> seed_balance 1000, (102, 3) \<mapsto> seed_balance 300,
         (200, 3) \<mapsto> seed_balance 500],
      idempotency_log = Map.empty,
      audit_log = []\<rparr>"

definition fresh :: session where
  "fresh = \<lparr>store = seeded, issued = []\<rparr>"

definition request_of :: "money \<Rightarrow> string \<Rightarrow> request" where
  "request_of v k =
     \<lparr>userId = ''user_001'', assetCode = ''GOLD_COIN'', amount = v, idempotencyKey = k,
      metadata = no_metadata\<rparr>"

definition world :: "timestamp \<Rightarrow> uuid \<Rightarrow> env" where
  "world t i = \<lparr>now = t, uuid = i, busy = [], commit_fault = None\<rparr>"

text \<open>A call at time \<open>t\<close> that is given the identifier \<open>i\<close>, with no other worker active.\<close>

definition alone :: "timestamp \<Rightarrow> uuid \<Rightarrow> call_env" where
  "alone t i = \<lparr>lookup_now = t, interleaved = (\<lambda>d. d), attempts = (\<lambda>_. world t i)\<rparr>"

text \<open>The response to user_001 for a movement of \<open>v\<close> GOLD_COIN.\<close>

definition receipt :: "uuid \<Rightarrow> money \<Rightarrow> money \<Rightarrow> timestamp \<Rightarrow> response" where
  "receipt i v b t =
     \<lparr>res_transactionId = i, res_userId = ''user_001'', res_assetCode = ''GOLD_COIN'',
      res_amount = v, res_newBalance = b, res_reason = None, res_item = None,
      res_timestamp = t\<rparr>"

text \<open>A top-up call at time 5 under the key of \<open>alone 5 60\<close>, whose lookup precedes and
  whose transaction follows the commit of that call by another worker.\<close>

definition racing :: call_env where
  "racing =
     \<lparr>lookup_now = 5,
      interleaved = (\<lambda>d. store (snd (topUp (request_of 100 ''k1'') (alone 5 60)
                                         \<lparr>store = d, issued = []\<rparr>))),
      attempts = (\<lambda>_. world 6 61)\<rparr>"

text \<open>The seeded database after user_001 topped up 100 under the key \<open>k1\<close> at time 5.\<close>

definition settled :: session where
  "settled = snd (movement TopUp (request_of 100 ''k1'') (alone 5 60) fresh)"

section \<open>Running the monad\<close>

lemma and_then_Inr:
  "(and_then m f s = (Inr r, s')) = (\<exists>x s1. m s = (Inr x, s1) \<and> f x s1 = (Inr r, s'))"
  by (auto simp: and_then_def split: prod.splits sum.splits)

lemma ret_eq: "(ret x s = (R, s')) = (R = Inr x \<and> s' = s)"
  by (auto simp: ret_def)

lemma throw_eq: "(throw e s = (R, s')) = (R = Inl e \<and> s' = s)"
  by (auto simp: throw_def)

lemma emit_eq: "(emit e s = (R, s')) = (R = Inr () \<and> s' = s\<lparr>issued := issued s @ [e]\<rparr>)"
  by (auto simp: emit_def)

lemma case_list_throw_Inr:
  "(case_list (throw e) k xs s = (Inr r, s')) =
     (\<exists>a rest. xs = a # rest \<and> k a rest s = (Inr r, s'))"
  by (cases xs) (auto simp: throw_def)

lemma if_throw_Inr:
  "((if c then throw e else m) s = (Inr r, s')) = (\<not> c \<and> m s = (Inr r, s'))"
  by (auto simp: throw_def)

lemma lock_rows_Inr:
  "(lock_rows env ids s = (Inr u, s')) =
     (set ids \<inter> set (busy env) = {} \<and> s' = s\<lparr>issued := issued s @ map LockRow ids\<rparr>)"
  by (induction ids arbitrary: s) auto


lemma select_asset_type_eq:
  "(select_asset_type code s = (R, s')) =
     (R = Inr (asset_type_rows code (store s))
      \<and> s' = s\<lparr>issued := issued s @ [SelectAssetType code]\<rparr>)"
  by (auto simp: select_asset_type_def and_then_def emit_def ret_def)

lemma select_user_account_eq:
  "(select_user_account user s = (R, s')) =
     (R = Inr (user_account_rows user (store s))
      \<and> s' = s\<lparr>issued := issued s @ [SelectUserAccount user]\<rparr>)"
  by (auto simp: select_user_account_def and_then_def emit_def ret_def)

lemma select_user_account_for_update_Inr:
  "(select_user_account_for_update env user s = (Inr rows, s')) =
     (rows = user_account_rows user (store s)
      \<and> set rows \<inter> set (busy env) = {}
      \<and> s' = s\<lparr>issued := issued s @ SelectUserAccount user # map LockRow rows\<rparr>)"
  by (auto simp: select_user_account_for_update_def and_then_Inr emit_eq ret_eq lock_rows_Inr)

lemma select_system_account_eq:
  "(select_system_account code s = (R, s')) =
     (R = Inr (system_account_rows code (store s))
      \<and> s' = s\<lparr>issued := issued s @ [SelectSystemAccount code]\<rparr>)"
  by (auto simp: select_system_account_def and_then_def emit_def ret_def)

lemma select_transaction_type_eq:
  "(select_transaction_type code s = (R, s')) =
     (R = Inr (transaction_type_rows code (store s))
      \<and> s' = s\<lparr>issued := issued s @ [SelectTransactionType code]\<rparr>)"
  by (auto simp: select_transaction_type_def and_then_def emit_def ret_def)

lemma if_lock_account_Inr:
  "((if c then lock_account env i else ret ()) s = (Inr u, s')) =
     ((c \<longrightarrow> set (account_rows_by_id [i] (store s)) \<inter> set (busy env) = {})
      \<and> s' = s\<lparr>issued := issued s
                  @ (if c then map LockRow (account_rows_by_id [i] (store s)) else [])\<rparr>)"
  by (simp add: lock_account_def lock_rows_Inr ret_eq)

lemma lock_accounts_ordered_Inr:
  "(lock_accounts_ordered env ids s = (Inr u, s')) =
     (set (account_rows_by_id ids (store s)) \<inter> set (busy env) = {}
      \<and> s' = s\<lparr>issued := issued s @ map LockRow (sort (account_rows_by_id ids (store s)))\<rparr>)"
  by (simp add: lock_accounts_ordered_def lock_rows_Inr)

lemma insert_transaction_Inr:
  "(insert_transaction row s = (Inr u, s')) =
     (numeric_ok (tx_amount row) \<and> 0 < tx_amount row
      \<and> tx_status row \<in> {''pending'', ''completed'', ''failed'', ''reversed''}
      \<and> tx_id row \<notin> tx_id ` set (transactions (store s))
      \<and> tx_idempotency_key row \<notin> tx_idempotency_key ` set (transactions (store s))
      \<and> s' = s\<lparr>issued := issued s @ [InsertTransaction (tx_id row)],
               store := (store s)\<lparr>transactions := transactions (store s) @ [row]\<rparr>\<rparr>)"
  by (auto simp: insert_transaction_def and_then_def emit_def throw_def modify_store_def)

lemma insert_ledger_entry_Inr:
  "(insert_ledger_entry row s = (Inr u, s')) =
     (numeric_ok (le_amount row) \<and> numeric_ok (le_running_balance row) \<and> 0 < le_amount row
      \<and> s' = s\<lparr>issued := issued s @ [InsertLedgerEntry (le_entry_type row) (le_account_id row)],
               store := (store s)\<lparr>ledger_entries := ledger_entries (store s) @ [row]\<rparr>\<rparr>)"
  by (auto simp: insert_ledger_entry_def and_then_def emit_def throw_def modify_store_def)

lemma insert_idempotency_Inr:
  "(insert_idempotency k row s = (Inr u, s')) =
     (k \<notin> dom (idempotency_log (store s))
      \<and> s' = s\<lparr>issued := issued s @ [InsertIdempotency k],
               store := (store s)\<lparr>idempotency_log := (idempotency_log (store s))(k \<mapsto> row)\<rparr>\<rparr>)"
  by (auto simp: insert_idempotency_def and_then_def emit_def throw_def modify_store_def)

lemma commit_Inr:
  "(commit env s = (Inr u, s')) =
     (commit_fault env = None \<and> s' = s\<lparr>issued := issued s @ [Commit]\<rparr>)"
  by (auto simp: commit_def and_then_def emit_def throw_def ret_def split: option.splits)

lemma getBalance_eq:
  "(getBalance a t s = (R, s')) =
     (R = Inr (cached_balance (store s) a t)
      \<and> s' = s\<lparr>issued := issued s @ [SelectBalance a t]\<rparr>)"
  by (auto simp: getBalance_def and_then_def emit_def ret_def)

lemma updateBalanceCache_Inr:
  "(updateBalanceCache env a t b tid s = (Inr u, s')) =
     (numeric_ok b \<and> 0 \<le> b
      \<and> s' = s\<lparr>issued := issued s @ [UpsertBalance a t],
               store := (store s)\<lparr>balance_cache := (balance_cache (store s))((a, t) \<mapsto>
                  \<lparr>bc_balance = b, bc_last_transaction_id = tid, bc_updated_at = now env\<rparr>)\<rparr>\<rparr>)"
  by (auto simp: updateBalanceCache_def and_then_def emit_def throw_def modify_store_def)

lemma createAuditLog_eq:
  "(createAuditLog row s = (R, s')) =
     (R = Inr ()
      \<and> s' = s\<lparr>issued := issued s @ [InsertAuditLog (au_action row)],
               store := (store s)\<lparr>audit_log := audit_log (store s) @ [row]\<rparr>\<rparr>)"
  by (auto simp: createAuditLog_def and_then_def emit_def modify_store_def)

lemmas run_Inr =
  and_then_Inr ret_eq throw_eq emit_eq case_list_throw_Inr if_throw_Inr
  select_asset_type_eq select_user_account_eq select_user_account_for_update_Inr
  select_system_account_eq select_transaction_type_eq if_lock_account_Inr
  lock_accounts_ordered_Inr insert_transaction_Inr insert_ledger_entry_Inr
  insert_idempotency_Inr commit_Inr getBalance_eq updateBalanceCache_Inr createAuditLog_eq
  Let_def

lemma sort2_nth:
  "sort [u, c] ! 0 = min u c" "sort [u, c] ! Suc 0 = max u (c::nat)"
  by (auto simp: min_def max_def)

lemma sort2_set: "set (sort [u, c]) = {u, c::nat}"
  by auto



lemma cached_balance_frame [simp]:
  "cached_balance (d\<lparr>transactions := x1\<rparr>) = cached_balance d"
  "cached_balance (d\<lparr>ledger_entries := x2\<rparr>) = cached_balance d"
  "cached_balance (d\<lparr>idempotency_log := x3\<rparr>) = cached_balance d"
  "cached_balance (d\<lparr>audit_log := x4\<rparr>) = cached_balance d"
  by (simp_all add: cached_balance_def fun_eq_iff)

lemma cached_balance_upd:
  "cached_balance (d\<lparr>balance_cache := (balance_cache d)((acct, a) \<mapsto> row)\<rparr>) acct' a' =
     (if acct' = acct \<and> a' = a then bc_balance row else cached_balance d acct' a')"
  by (simp add: cached_balance_def)


lemma topUp_body_resolves:
  assumes "topUp_body req env s = (Inr r, s')"
  obtains a ra u ru c rc t rt where
    "asset_type_rows (assetCode req) (store s) = a # ra"
    "user_account_rows (userId req) (store s) = u # ru"
    "system_account_rows ''SYSTEM_TREASURY'' (store s) = c # rc"
    "transaction_type_rows ''TOP_UP'' (store s) = t # rt"
  using assms
  by (simp add: topUp_body_def and_then_Inr ret_eq emit_eq case_list_throw_Inr
      select_asset_type_eq select_user_account_eq select_user_account_for_update_Inr
      select_system_account_eq select_transaction_type_eq if_lock_account_Inr
      lock_accounts_ordered_Inr Let_def del: sort_key_simps) blast

lemma topUp_body_effect:
  assumes "topUp_body req env s = (Inr r, s')"
    and "asset_type_rows (assetCode req) (store s) = a # ra"
    and "user_account_rows (userId req) (store s) = u # ru"
    and "system_account_rows ''SYSTEM_TREASURY'' (store s) = c # rc"
    and "transaction_type_rows ''TOP_UP'' (store s) = t # rt"
  shows "header_insertable req env (store s)
   \<and> \<not> cached_balance (store s) c a < amount req
   \<and> idempotencyKey req \<notin> dom (idempotency_log (store s))
   \<and> commit_fault env = None
   \<and> r = \<lparr>res_transactionId = uuid env, res_userId = userId req,
        res_assetCode = assetCode req, res_amount = amount req,
        res_newBalance = cached_balance (store s) u a + amount req,
        res_reason = None, res_item = None, res_timestamp = now env\<rparr>
   \<and> store s' = (store s)
      \<lparr>transactions := transactions (store s) @
         [\<lparr>tx_id = uuid env, tx_idempotency_key = idempotencyKey req,
           tx_transaction_type_id = t, tx_asset_type_id = a, tx_amount = amount req,
           tx_description = or_default (md_description (metadata req)) (TopUpText (amount req) (assetCode req)),
           tx_metadata = metadata req, tx_status = ''completed'', tx_created_at = now env,
           tx_completed_at = Some (now env)\<rparr>],
       ledger_entries := ledger_entries (store s) @
         [\<lparr>le_transaction_id = uuid env, le_account_id = c,
           le_asset_type_id = a, le_entry_type = Debit, le_amount = amount req,
           le_running_balance = cached_balance (store s) c a - amount req,
           le_description = ''Debit from treasury for user top-up'', le_created_at = now env\<rparr>,
          \<lparr>le_transaction_id = uuid env, le_account_id = u,
           le_asset_type_id = a, le_entry_type = Credit, le_amount = amount req,
           le_running_balance = cached_balance (store s) u a + amount req,
           le_description = ''Credit to user wallet'', le_created_at = now env\<rparr>],
       balance_cache := (balance_cache (store s))
         ((c, a) \<mapsto> \<lparr>bc_balance = cached_balance (store s) c a - amount req,
                      bc_last_transaction_id = uuid env, bc_updated_at = now env\<rparr>,
          (u, a) \<mapsto> \<lparr>bc_balance = cached_balance (store s) u a + amount req,
                      bc_last_transaction_id = uuid env, bc_updated_at = now env\<rparr>),
       idempotency_log := (idempotency_log (store s))
         (idempotencyKey req \<mapsto>
            \<lparr>il_request_hash = (userId req, assetCode req, amount req),
             il_response_data = r, il_status = ''completed'',
             il_created_at = now env, il_expires_at = now env + idempotency_ttl\<rparr>),
       audit_log := audit_log (store s) @
         [\<lparr>au_transaction_id = uuid env, au_account_id = u,
           au_action = ''TOP_UP'', au_request_userId = userId req,
           au_request_assetCode = assetCode req, au_request_amount = amount req,
           au_request_idempotencyKey = Some (idempotencyKey req),
           au_request_reason = None, au_request_item = None\<rparr>]\<rparr>"
  using assms
  apply (simp add: topUp_body_def run_Inr del: sort_key_simps)
  apply (elim exE conjE)
  apply (simp add: header_insertable_def)
  done

lemma issueBonus_body_resolves:
  assumes "issueBonus_body req env s = (Inr r, s')"
  obtains a ra u ru c rc t rt where
    "asset_type_rows (assetCode req) (store s) = a # ra"
    "user_account_rows (userId req) (store s) = u # ru"
    "system_account_rows ''SYSTEM_BONUS'' (store s) = c # rc"
    "transaction_type_rows ''BONUS'' (store s) = t # rt"
  using assms
  by (simp add: issueBonus_body_def and_then_Inr ret_eq emit_eq case_list_throw_Inr
      select_asset_type_eq select_user_account_eq select_user_account_for_update_Inr
      select_system_account_eq select_transaction_type_eq if_lock_account_Inr
      lock_accounts_ordered_Inr Let_def del: sort_key_simps) blast

lemma issueBonus_body_effect:
  assumes "issueBonus_body req env s = (Inr r, s')"
    and "asset_type_rows (assetCode req) (store s) = a # ra"
    and "user_account_rows (userId req) (store s) = u # ru"
    and "system_account_rows ''SYSTEM_BONUS'' (store s) = c # rc"
    and "transaction_type_rows ''BONUS'' (store s) = t # rt"
  shows "header_insertable req env (store s)
   \<and> \<not> cached_balance (store s) c a < amount req
   \<and> idempotencyKey req \<notin> dom (idempotency_log (store s))
   \<and> commit_fault env = None
   \<and> r = \<lparr>res_transactionId = uuid env, res_userId = userId req,
        res_assetCode = assetCode req, res_amount = amount req,
        res_newBalance = cached_balance (store s) u a + amount req,
        res_reason = md_reason (metadata req), res_item = None, res_timestamp = now env\<rparr>
   \<and> store s' = (store s)
      \<lparr>transactions := transactions (store s) @
         [\<lparr>tx_id = uuid env, tx_idempotency_key = idempotencyKey req,
           tx_transaction_type_id = t, tx_asset_type_id = a, tx_amount = amount req,
           tx_description = or_default (md_reason (metadata req)) (BonusText (amount req) (assetCode req)),
           tx_metadata = metadata req, tx_status = ''completed'', tx_created_at = now env,
           tx_completed_at = Some (now env)\<rparr>],
       ledger_entries := ledger_entries (store s) @
         [\<lparr>le_transaction_id = uuid env, le_account_id = c,
           le_asset_type_id = a, le_entry_type = Debit, le_amount = amount req,
           le_running_balance = cached_balance (store s) c a - amount req,
           le_description = ''Debit from bonus pool'', le_created_at = now env\<rparr>,
          \<lparr>le_transaction_id = uuid env, le_account_id = u,
           le_asset_type_id = a, le_entry_type = Credit, le_amount = amount req,
           le_running_balance = cached_balance (store s) u a + amount req,
           le_description = ''Bonus credit to user'', le_created_at = now env\<rparr>],
       balance_cache := (balance_cache (store s))
         ((c, a) \<mapsto> \<lparr>bc_balance = cached_balance (store s) c a - amount req,
                      bc_last_transaction_id = uuid env, bc_updated_at = now env\<rparr>,
          (u, a) \<mapsto> \<lparr>bc_balance = cached_balance (store s) u a + amount req,
                      bc_last_transaction_id = uuid env, bc_updated_at = now env\<rparr>),
       idempotency_log := (idempotency_log (store s))
         (idempotencyKey req \<mapsto>
            \<lparr>il_request_hash = (userId req, assetCode req, amount req),
             il_response_data = r, il_status = ''completed'',
             il_created_at = now env, il_expires_at = now env + idempotency_ttl\<rparr>),
       audit_log := audit_log (store s) @
         [\<lparr>au_transaction_id = uuid env, au_account_id = u,
           au_action = ''BONUS'', au_request_userId = userId req,
           au_request_assetCode = assetCode req, au_request_amount = amount req,
           au_request_idempotencyKey = None,
           au_request_reason = md_reason (metadata req), au_request_item = None\<rparr>]\<rparr>"
  using assms
  apply (simp add: issueBonus_body_def run_Inr del: sort_key_simps)
  apply (elim exE conjE)
  apply (simp add: header_insertable_def)
  done

lemma purchase_body_resolves:
  assumes "purchase_body req env s = (Inr r, s')"
  obtains a ra u ru c rc t rt where
    "asset_type_rows (assetCode req) (store s) = a # ra"
    "user_account_rows (userId req) (store s) = u # ru"
    "system_account_rows ''SYSTEM_REVENUE'' (store s) = c # rc"
    "transaction_type_rows ''PURCHASE'' (store s) = t # rt"
  using assms
  by (simp add: purchase_body_def and_then_Inr ret_eq emit_eq case_list_throw_Inr
      select_asset_type_eq select_user_account_eq select_user_account_for_update_Inr
      select_system_account_eq select_transaction_type_eq if_lock_account_Inr
      lock_accounts_ordered_Inr Let_def del: sort_key_simps) blast

lemma purchase_body_effect:
  assumes "purchase_body req env s = (Inr r, s')"
    and "asset_type_rows (assetCode req) (store s) = a # ra"
    and "user_account_rows (userId req) (store s) = u # ru"
    and "system_account_rows ''SYSTEM_REVENUE'' (store s) = c # rc"
    and "transaction_type_rows ''PURCHASE'' (store s) = t # rt"
  shows "header_insertable req env (store s)
   \<and> \<not> cached_balance (store s) u a < amount req
   \<and> idempotencyKey req \<notin> dom (idempotency_log (store s))
   \<and> commit_fault env = None
   \<and> r = \<lparr>res_transactionId = uuid env, res_userId = userId req,
        res_assetCode = assetCode req, res_amount = amount req,
        res_newBalance = cached_balance (store s) u a - amount req,
        res_reason = None, res_item = js_or (md_itemName (metadata req)) (md_itemId (metadata req)), res_timestamp = now env\<rparr>
   \<and> store s' = (store s)
      \<lparr>transactions := transactions (store s) @
         [\<lparr>tx_id = uuid env, tx_idempotency_key = idempotencyKey req,
           tx_transaction_type_id = t, tx_asset_type_id = a, tx_amount = amount req,
           tx_description = (case md_itemName (metadata req) of
              Some itemName \<Rightarrow>
                if itemName \<noteq> [] then PurchaseItemText itemName (amount req) (assetCode req)
                else PurchaseText (amount req) (assetCode req)
            | None \<Rightarrow> PurchaseText (amount req) (assetCode req)),
           tx_metadata = metadata req, tx_status = ''completed'', tx_created_at = now env,
           tx_completed_at = Some (now env)\<rparr>],
       ledger_entries := ledger_entries (store s) @
         [\<lparr>le_transaction_id = uuid env, le_account_id = u,
           le_asset_type_id = a, le_entry_type = Debit, le_amount = amount req,
           le_running_balance = cached_balance (store s) u a - amount req,
           le_description = ''Debit from user for purchase'', le_created_at = now env\<rparr>,
          \<lparr>le_transaction_id = uuid env, le_account_id = c,
           le_asset_type_id = a, le_entry_type = Credit, le_amount = amount req,
           le_running_balance = cached_balance (store s) c a + amount req,
           le_description = ''Revenue from user purchase'', le_created_at = now env\<rparr>],
       balance_cache := (balance_cache (store s))
         ((u, a) \<mapsto> \<lparr>bc_balance = cached_balance (store s) u a - amount req,
                      bc_last_transaction_id = uuid env, bc_updated_at = now env\<rparr>,
          (c, a) \<mapsto> \<lparr>bc_balance = cached_balance (store s) c a + amount req,
                      bc_last_transaction_id = uuid env, bc_updated_at = now env\<rparr>),
       idempotency_log := (idempotency_log (store s))
         (idempotencyKey req \<mapsto>
            \<lparr>il_request_hash = (userId req, assetCode req, amount req),
             il_response_data = r, il_status = ''completed'',
             il_created_at = now env, il_expires_at = now env + idempotency_ttl\<rparr>),
       audit_log := audit_log (store s) @
         [\<lparr>au_transaction_id = uuid env, au_account_id = u,
           au_action = ''PURCHASE'', au_request_userId = userId req,
           au_request_assetCode = assetCode req, au_request_amount = amount req,
           au_request_idempotencyKey = None,
           au_request_reason = None, au_request_item = js_or (md_itemName (metadata req)) (md_itemId (metadata req))\<rparr>]\<rparr>"
  using assms
  apply (simp add: purchase_body_def run_Inr del: sort_key_simps)
  apply (elim exE conjE)
  apply (simp add: header_insertable_def)
  done

section \<open>Commit and rollback\<close>

lemma rollback_on_error_Inr:
  "(rollback_on_error body s = (Inr r, s')) = (body s = (Inr r, s'))"
  by (auto simp: rollback_on_error_def split: prod.splits sum.splits)

lemma rollback_on_error_Inl:
  "rollback_on_error body s = (Inl e, s') \<Longrightarrow> store s' = store s"
  by (auto simp: rollback_on_error_def split: prod.splits sum.splits)

lemma executeTransaction_body:
  "executeTransaction op req env = rollback_on_error (transaction_body op req env)"
  by (cases op)
     (simp_all add: executeTopUpTransaction_def executeIssueBonusTransaction_def
        executePurchaseTransaction_def)

lemma take1_eq:
  "(take 1 xs = [a]) = (\<exists>rest. xs = a # rest)"
  "(take (Suc 0) xs = [a]) = (\<exists>rest. xs = a # rest)"
  by (cases xs; auto)+

lemma committed_resolves:
  assumes "executeTransaction op req env s = (Inr r, s')"
  obtains a u c where "resolves op req (store s) a u c"
proof -
  from assms have b: "transaction_body op req env s = (Inr r, s')"
    by (simp add: executeTransaction_body rollback_on_error_Inr)
  show thesis
  proof (cases op)
    case TopUp
    with b have "topUp_body req env s = (Inr r, s')" by simp
    then obtain a ra u ru c rc t rt where
      "asset_type_rows (assetCode req) (store s) = a # ra"
      "user_account_rows (userId req) (store s) = u # ru"
      "system_account_rows ''SYSTEM_TREASURY'' (store s) = c # rc"
      by (rule topUp_body_resolves)
    with TopUp have "resolves op req (store s) a u c" by (simp add: resolves_def)
    then show thesis by (rule that)
  next
    case IssueBonus
    with b have "issueBonus_body req env s = (Inr r, s')" by simp
    then obtain a ra u ru c rc t rt where
      "asset_type_rows (assetCode req) (store s) = a # ra"
      "user_account_rows (userId req) (store s) = u # ru"
      "system_account_rows ''SYSTEM_BONUS'' (store s) = c # rc"
      by (rule issueBonus_body_resolves)
    with IssueBonus have "resolves op req (store s) a u c" by (simp add: resolves_def)
    then show thesis by (rule that)
  next
    case Purchase
    with b have "purchase_body req env s = (Inr r, s')" by simp
    then obtain a ra u ru c rc t rt where
      "asset_type_rows (assetCode req) (store s) = a # ra"
      "user_account_rows (userId req) (store s) = u # ru"
      "system_account_rows ''SYSTEM_REVENUE'' (store s) = c # rc"
      by (rule purchase_body_resolves)
    with Purchase have "resolves op req (store s) a u c" by (simp add: resolves_def)
    then show thesis by (rule that)
  qed
qed

text \<open>What a committed movement leaves behind, for the three operations at once.\<close>

lemma committed_effect:
  assumes run: "executeTransaction op req env s = (Inr r, s')"
    and res: "resolves op req (store s) a u c"
  obtains h d e au where
    "store s' = (store s)
      \<lparr>transactions := transactions (store s) @ [h],
       ledger_entries := ledger_entries (store s) @ [d, e],
       balance_cache := (balance_cache (store s))
         ((source_account op u c, a) \<mapsto>
            \<lparr>bc_balance = cached_balance (store s) (source_account op u c) a - amount req,
             bc_last_transaction_id = uuid env, bc_updated_at = now env\<rparr>,
          (destination_account op u c, a) \<mapsto>
            \<lparr>bc_balance = cached_balance (store s) (destination_account op u c) a + amount req,
             bc_last_transaction_id = uuid env, bc_updated_at = now env\<rparr>),
       idempotency_log := (idempotency_log (store s))
         (idempotencyKey req \<mapsto>
            \<lparr>il_request_hash = (userId req, assetCode req, amount req),
             il_response_data = r, il_status = ''completed'',
             il_created_at = now env, il_expires_at = now env + idempotency_ttl\<rparr>),
       audit_log := audit_log (store s) @ [au]\<rparr>"
    "tx_id h = uuid env \<and> tx_idempotency_key h = idempotencyKey req \<and> tx_asset_type_id h = a
      \<and> tx_amount h = amount req \<and> tx_status h = ''completed''
      \<and> tx_created_at h = now env \<and> tx_completed_at h = Some (now env)"
    "le_transaction_id d = uuid env \<and> le_account_id d = source_account op u c
      \<and> le_asset_type_id d = a \<and> le_entry_type d = Debit \<and> le_amount d = amount req
      \<and> le_running_balance d = cached_balance (store s) (source_account op u c) a - amount req"
    "le_transaction_id e = uuid env \<and> le_account_id e = destination_account op u c
      \<and> le_asset_type_id e = a \<and> le_entry_type e = Credit \<and> le_amount e = amount req
      \<and> le_running_balance e
          = cached_balance (store s) (destination_account op u c) a + amount req"
    "header_insertable req env (store s)"
    "amount req \<le> cached_balance (store s) (source_account op u c) a"
    "idempotencyKey req \<notin> dom (idempotency_log (store s))"
    "commit_fault env = None"
    "res_transactionId r = uuid env \<and> res_timestamp r = now env \<and> res_amount r = amount req
      \<and> res_userId r = userId req \<and> res_assetCode r = assetCode req"
proof -
  from run have b: "transaction_body op req env s = (Inr r, s')"
    by (simp add: executeTransaction_body rollback_on_error_Inr)
  from res obtain ra ru rc where rows:
    "asset_type_rows (assetCode req) (store s) = a # ra"
    "user_account_rows (userId req) (store s) = u # ru"
    "system_account_rows (system_code op) (store s) = c # rc"
    by (auto simp: resolves_def take1_eq)
  show thesis
  proof (cases op)
    case TopUp
    with b have bb: "topUp_body req env s = (Inr r, s')" by simp
    then obtain t rt where
      "transaction_type_rows ''TOP_UP'' (store s) = t # rt"
      by (rule topUp_body_resolves)
    from topUp_body_effect[OF bb rows(1) rows(2) rows(3)[unfolded TopUp system_code.simps] this]
    show thesis using TopUp
      by (intro that[where h = "last (transactions (store s'))"
            and d = "ledger_entries (store s') ! length (ledger_entries (store s))"
            and e = "last (ledger_entries (store s'))"
            and au = "last (audit_log (store s'))"])
         simp_all
  next
    case IssueBonus
    with b have bb: "issueBonus_body req env s = (Inr r, s')" by simp
    then obtain t rt where
      "transaction_type_rows ''BONUS'' (store s) = t # rt"
      by (rule issueBonus_body_resolves)
    from issueBonus_body_effect[OF bb rows(1) rows(2) rows(3)[unfolded IssueBonus system_code.simps] this]
    show thesis using IssueBonus
      by (intro that[where h = "last (transactions (store s'))"
            and d = "ledger_entries (store s') ! length (ledger_entries (store s))"
            and e = "last (ledger_entries (store s'))"
            and au = "last (audit_log (store s'))"])
         simp_all
  next
    case Purchase
    with b have bb: "purchase_body req env s = (Inr r, s')" by simp
    then obtain t rt where
      "transaction_type_rows ''PURCHASE'' (store s) = t # rt"
      by (rule purchase_body_resolves)
    from purchase_body_effect[OF bb rows(1) rows(2) rows(3)[unfolded Purchase system_code.simps] this]
    show thesis using Purchase
      by (intro that[where h = "last (transactions (store s'))"
            and d = "ledger_entries (store s') ! length (ledger_entries (store s))"
            and e = "last (ledger_entries (store s'))"
            and au = "last (audit_log (store s'))"])
         simp_all
  qed
qed


section \<open>The retry driver\<close>


lemma retry_from_Inl_store:
  "executeWithRetry_from k lastError f n envs s = (Inl e, s') \<Longrightarrow> atomic f
     \<Longrightarrow> store s' = store s"
proof (induction k lastError f n envs s arbitrary: e s' rule: executeWithRetry_from.induct)
  case (1 attempt lastError queryFunction maxRetries envs s)
  show ?case
  proof (cases "attempt \<le> maxRetries")
    case False
    with "1.prems"(1) show ?thesis
      by (subst (asm) executeWithRetry_from.simps) (auto split: option.splits)
  next
    case True
    obtain R1 s1 where q: "queryFunction (envs attempt) s = (R1, s1)"
      by (cases "queryFunction (envs attempt) s")
    show ?thesis
    proof (cases R1)
      case (Inr r)
      with "1.prems"(1) True q show ?thesis
        by (subst (asm) executeWithRetry_from.simps) simp
    next
      case (Inl e1)
      with q "1.prems"(2) have s1: "store s1 = store s" by (auto simp: atomic_def)
      show ?thesis
      proof (cases "\<not> isRetriable e1 \<or> attempt = maxRetries")
        case True
        with "1.prems"(1) \<open>attempt \<le> maxRetries\<close> q Inl s1 show ?thesis
          by (subst (asm) executeWithRetry_from.simps) auto
      next
        case False
        with "1.prems"(1) \<open>attempt \<le> maxRetries\<close> q Inl
        have "executeWithRetry_from (attempt + 1) (Some e1) queryFunction maxRetries envs
                (s1\<lparr>issued := issued s1 @ [Sleep attempt]\<rparr>) = (Inl e, s')"
          by (subst (asm) executeWithRetry_from.simps) auto
        from "1.IH"[OF \<open>attempt \<le> maxRetries\<close> q[symmetric] _ False this "1.prems"(2)] Inl s1
        show ?thesis by simp
      qed
    qed
  qed
qed


lemma retry_from_Inr:
  "executeWithRetry_from k lastError f n envs s = (Inr r, s') \<Longrightarrow> atomic f
     \<Longrightarrow> \<exists>j s0. store s0 = store s \<and> f (envs j) s0 = (Inr r, s')"
proof (induction k lastError f n envs s arbitrary: r s' rule: executeWithRetry_from.induct)
  case (1 attempt lastError queryFunction maxRetries envs s)
  show ?case
  proof (cases "attempt \<le> maxRetries")
    case False
    with "1.prems"(1) show ?thesis
      by (subst (asm) executeWithRetry_from.simps) (auto split: option.splits)
  next
    case True
    obtain R1 s1 where q: "queryFunction (envs attempt) s = (R1, s1)"
      by (cases "queryFunction (envs attempt) s")
    show ?thesis
    proof (cases R1)
      case (Inr r1)
      with "1.prems"(1) True q have "r1 = r" "s1 = s'"
        by (subst (asm) executeWithRetry_from.simps, simp)+
      with q Inr show ?thesis by blast
    next
      case (Inl e1)
      with q "1.prems"(2) have s1: "store s1 = store s" by (auto simp: atomic_def)
      show ?thesis
      proof (cases "\<not> isRetriable e1 \<or> attempt = maxRetries")
        case True
        with "1.prems"(1) \<open>attempt \<le> maxRetries\<close> q Inl show ?thesis
          by (subst (asm) executeWithRetry_from.simps) auto
      next
        case False
        with "1.prems"(1) \<open>attempt \<le> maxRetries\<close> q Inl
        have "executeWithRetry_from (attempt + 1) (Some e1) queryFunction maxRetries envs
                (s1\<lparr>issued := issued s1 @ [Sleep attempt]\<rparr>) = (Inr r, s')"
          by (subst (asm) executeWithRetry_from.simps) auto
        from "1.IH"[OF \<open>attempt \<le> maxRetries\<close> q[symmetric] _ False this "1.prems"(2)] Inl s1
        show ?thesis by simp
      qed
    qed
  qed
qed

lemma executeTransaction_atomic: "atomic (executeTransaction op req)"
  by (auto simp: atomic_def executeTransaction_body dest: rollback_on_error_Inl)

lemma movement_unfold:
  "movement op req c =
     (if userId req = [] \<or> assetCode req = [] \<or> amount req = 0 \<or> idempotencyKey req = []
      then throw MissingParameters
      else if amount req \<le> 0 then throw AmountNotPositive
      else
        and_then (emit (SelectIdempotency (idempotencyKey req))) (\<lambda>_ s.
          case checkIdempotency (idempotencyKey req) (lookup_now c) (store s) of
            Some existingResult \<Rightarrow> ret existingResult s
          | None \<Rightarrow>
              and_then (modify_store (interleaved c)) (\<lambda>_.
                executeWithRetry (executeTransaction op req) 3 (attempts c)) s))"
  by (cases op; hypsubst;
      unfold movement.simps executeTransaction.simps topUp_def issueBonus_def purchase_def;
      rule refl)

section \<open>Sums over the ledger\<close>




section \<open>What every write leaves in the header table\<close>

lemma keeps_ret: "keeps I (ret x)"
  by (simp add: keeps_def ret_def)

lemma keeps_throw: "keeps I (throw e)"
  by (simp add: keeps_def throw_def)

lemma keeps_emit: "keeps I (emit e)"
  by (simp add: keeps_def emit_def)

lemma keeps_and_then:
  assumes m: "keeps I m" and f: "\<And>x. keeps I (f x)"
  shows "keeps I (and_then m f)"
  unfolding keeps_def
proof (intro allI impI)
  fix s R s'
  assume I: "I (store s)" and run: "and_then m f s = (R, s')"
  obtain R1 s1 where m1: "m s = (R1, s1)" by (cases "m s")
  with m I have I1: "I (store s1)" by (auto simp: keeps_def)
  show "I (store s')"
  proof (cases R1)
    case (Inl e)
    with run m1 have "s' = s1" by (simp add: and_then_def)
    with I1 show ?thesis by simp
  next
    case (Inr x)
    with run m1 have "f x s1 = (R, s')" by (simp add: and_then_def)
    with f [of x] I1 show ?thesis by (auto simp: keeps_def)
  qed
qed

lemma keeps_case_list:
  "keeps I m \<Longrightarrow> (\<And>x xs. keeps I (f x xs))
     \<Longrightarrow> keeps I (case l of [] \<Rightarrow> m | x # xs \<Rightarrow> f x xs)"
  by (cases l) simp_all

lemma keeps_if: "keeps I m1 \<Longrightarrow> keeps I m2 \<Longrightarrow> keeps I (if b then m1 else m2)"
  by simp

lemma keeps_reader:
  "(\<And>s R s'. m s = (R, s') \<Longrightarrow> store s' = store s) \<Longrightarrow> keeps I m"
  by (auto simp: keeps_def)

lemma lock_rows_store: "lock_rows env ids s = (R, s') \<Longrightarrow> store s' = store s"
  by (induction ids arbitrary: s) (auto split: if_splits)

lemma keeps_lock_rows: "keeps I (lock_rows env ids)"
  by (rule keeps_reader) (rule lock_rows_store)

lemma keeps_select_asset_type: "keeps I (select_asset_type code)"
  by (rule keeps_reader) (simp add: select_asset_type_eq)

lemma keeps_select_user_account: "keeps I (select_user_account user)"
  by (rule keeps_reader) (simp add: select_user_account_eq)

lemma keeps_select_user_account_for_update:
  "keeps I (select_user_account_for_update env user)"
  unfolding select_user_account_for_update_def
  by (rule keeps_and_then [OF keeps_emit])
     (auto simp: keeps_def and_then_def ret_def split: prod.splits sum.splits
        dest: lock_rows_store)

lemma keeps_select_system_account: "keeps I (select_system_account code)"
  by (rule keeps_reader) (simp add: select_system_account_eq)

lemma keeps_select_transaction_type: "keeps I (select_transaction_type code)"
  by (rule keeps_reader) (simp add: select_transaction_type_eq)

lemma keeps_lock_account: "keeps I (lock_account env i)"
  by (rule keeps_reader) (auto simp: lock_account_def dest: lock_rows_store)

lemma keeps_lock_accounts_ordered: "keeps I (lock_accounts_ordered env ids)"
  by (rule keeps_reader) (auto simp: lock_accounts_ordered_def dest: lock_rows_store)

lemma keeps_getBalance: "keeps I (getBalance acct a)"
  by (rule keeps_reader) (simp add: getBalance_eq)

lemma keeps_commit: "keeps I (commit env)"
  unfolding commit_def
  by (intro keeps_and_then keeps_emit) (simp add: keeps_ret keeps_throw split: option.splits)


lemma keeps_insert_ledger_entry:
  "keeps (new_headers_completed old) (insert_ledger_entry row)"
  unfolding insert_ledger_entry_def
  by (rule keeps_and_then [OF keeps_emit])
     (simp add: keeps_def new_headers_completed_def throw_def modify_store_def)

lemma keeps_updateBalanceCache:
  "keeps (new_headers_completed old) (updateBalanceCache env acct a b tid)"
  unfolding updateBalanceCache_def
  by (rule keeps_and_then [OF keeps_emit])
     (simp add: keeps_def new_headers_completed_def throw_def modify_store_def)

lemma keeps_insert_idempotency:
  "keeps (new_headers_completed old) (insert_idempotency k irow)"
  unfolding insert_idempotency_def
  by (rule keeps_and_then [OF keeps_emit])
     (simp add: keeps_def new_headers_completed_def throw_def modify_store_def)

lemma keeps_createAuditLog:
  "keeps (new_headers_completed old) (createAuditLog arow)"
  unfolding createAuditLog_def
  by (rule keeps_and_then [OF keeps_emit])
     (simp add: keeps_def new_headers_completed_def modify_store_def)

lemma keeps_insert_transaction:
  "tx_status row = ''completed'' \<Longrightarrow> tx_completed_at row \<noteq> None
     \<Longrightarrow> keeps (new_headers_completed old) (insert_transaction row)"
  unfolding insert_transaction_def
  by (rule keeps_and_then [OF keeps_emit])
     (auto simp: keeps_def new_headers_completed_def throw_def modify_store_def
        split: if_splits)

lemmas keeps_rules =
  keeps_and_then keeps_case_list keeps_if keeps_ret keeps_throw keeps_emit
  keeps_select_asset_type keeps_select_user_account keeps_select_user_account_for_update
  keeps_select_system_account keeps_select_transaction_type keeps_lock_account
  keeps_lock_accounts_ordered keeps_getBalance keeps_commit
  keeps_insert_ledger_entry keeps_updateBalanceCache keeps_insert_idempotency
  keeps_createAuditLog keeps_insert_transaction


lemma topUp_body_keeps: "keeps (new_headers_completed old) (topUp_body req env)"
  unfolding topUp_body_def Let_def
  apply (intro keeps_rules)
  apply simp_all
  done


lemma issueBonus_body_keeps: "keeps (new_headers_completed old) (issueBonus_body req env)"
  unfolding issueBonus_body_def Let_def
  apply (intro keeps_rules)
  apply simp_all
  done

lemma purchase_body_keeps: "keeps (new_headers_completed old) (purchase_body req env)"
  unfolding purchase_body_def Let_def
  apply (intro keeps_rules)
  apply simp_all
  done

lemma transaction_body_keeps:
  "keeps (new_headers_completed old) (transaction_body op req env)"
  by (cases op) (simp_all add: topUp_body_keeps issueBonus_body_keeps purchase_body_keeps)

section \<open>Running a movement forward\<close>


lemma set_account_rows_by_id: "set (account_rows_by_id ids d) \<subseteq> set ids"
  by (auto simp: account_rows_by_id_def)








section \<open>The order of the steps of a committed movement\<close>

lemma writer_steps_locks [simp]: "filter is_step (map LockRow ids) = map LockRow ids"
  by (induction ids) simp_all





section \<open>The fast path and the retried transaction of a call\<close>

lemma valid_request_metadata [simp]:
  "valid_request (req\<lparr>metadata := m\<rparr>) = valid_request req"
  by (simp add: valid_request_def)

lemma movement_invalid:
  "\<not> valid_request req \<Longrightarrow> \<exists>e. movement op req c s = (Inl e, s)"
  by (auto simp: movement_unfold valid_request_def throw_def)

lemma movement_miss:
  assumes "valid_request req"
    and "checkIdempotency (idempotencyKey req) (lookup_now c) (store s) = None"
  shows "movement op req c s =
     executeWithRetry_from 1 None (executeTransaction op req) 3 (attempts c)
       (s\<lparr>issued := issued s @ [SelectIdempotency (idempotencyKey req)],
          store := interleaved c (store s)\<rparr>)"
  using assms
  by (auto simp: movement_unfold valid_request_def and_then_def emit_def modify_store_def
        executeWithRetry_def)




section \<open>Evaluation on the seeded database\<close>

lemmas run_defs =
  executeTopUpTransaction_def executeIssueBonusTransaction_def executePurchaseTransaction_def
  topUp_body_def issueBonus_body_def purchase_body_def
  rollback_on_error_def and_then_def emit_def ret_def throw_def modify_store_def
  select_asset_type_def select_user_account_def select_user_account_for_update_def
  select_system_account_def select_transaction_type_def lock_account_def
  lock_accounts_ordered_def insert_transaction_def insert_ledger_entry_def
  insert_idempotency_def commit_def getBalance_def updateBalanceCache_def createAuditLog_def
  asset_type_rows_def user_account_rows_def system_account_rows_def account_rows_by_id_def
  transaction_type_rows_def cached_balance_def or_default_def js_or_def numeric_ok_def
  idempotency_ttl_def Let_def

lemmas seed_defs =
  fresh_def seeded_def seed_entry_def seed_balance_def no_metadata_def request_of_def
  world_def alone_def receipt_def racing_def settled_def

lemma topUp_100_runs:
  "fst (executeTransaction TopUp (request_of 100 ''k1'') (world 5 60) fresh)
     = Inr (receipt 60 100 600 5)"
  by (simp add: run_defs seed_defs)

lemmas call_defs =
  topUp_def issueBonus_def purchase_def checkIdempotency_def executeWithRetry_def
  executeWithRetry_from.simps isRetriable_def



lemma settled_record:
  "idempotency_log (store settled) ''k1'' =
     Some \<lparr>il_request_hash = (''user_001'', ''GOLD_COIN'', 100),
           il_response_data = receipt 60 100 600 5, il_status = ''completed'',
           il_created_at = 5, il_expires_at = 86400005\<rparr>"
  by (simp add: call_defs run_defs seed_defs)

section \<open>Claims\<close>

text \<open>
  C1. For every movement committed by topUp, issueBonus or purchase, exactly two ledger
  entries reference the new transaction header: the first a debit, the second a credit,
  both of the requested amount, which is strictly positive, and both in the asset of the
  header. The header is new and the only one with its identifier. The stored entries
  are taken to satisfy the foreign key of the schema (each refers to a stored header).
\<close>

theorem C1_two_entries:
  assumes "executeTransaction op req env s = (Inr r, s')"
    and "entries_reference_headers (store s)"
  shows "\<exists>h d e. headers_with_id (res_transactionId r) (store s') = [h]
      \<and> h \<notin> set (transactions (store s))
      \<and> entries_of (res_transactionId r) (store s') = [d, e]
      \<and> le_entry_type d = Debit \<and> le_entry_type e = Credit
      \<and> le_amount d = amount req \<and> le_amount e = amount req \<and> 0 < amount req
      \<and> le_asset_type_id d = tx_asset_type_id h \<and> le_asset_type_id e = tx_asset_type_id h"
proof -
  from assms(1) obtain a u c where res: "resolves op req (store s) a u c"
    by (rule committed_resolves)
  from assms(1) res obtain h d e au where
    st: "store s' = (store s)
      \<lparr>transactions := transactions (store s) @ [h],
       ledger_entries := ledger_entries (store s) @ [d, e],
       balance_cache := (balance_cache (store s))
         ((source_account op u c, a) \<mapsto>
            \<lparr>bc_balance = cached_balance (store s) (source_account op u c) a - amount req,
             bc_last_transaction_id = uuid env, bc_updated_at = now env\<rparr>,
          (destination_account op u c, a) \<mapsto>
            \<lparr>bc_balance = cached_balance (store s) (destination_account op u c) a + amount req,
             bc_last_transaction_id = uuid env, bc_updated_at = now env\<rparr>),
       idempotency_log := (idempotency_log (store s))
         (idempotencyKey req \<mapsto>
            \<lparr>il_request_hash = (userId req, assetCode req, amount req),
             il_response_data = r, il_status = ''completed'',
             il_created_at = now env, il_expires_at = now env + idempotency_ttl\<rparr>),
       audit_log := audit_log (store s) @ [au]\<rparr>"
    and h: "tx_id h = uuid env \<and> tx_idempotency_key h = idempotencyKey req \<and> tx_asset_type_id h = a
      \<and> tx_amount h = amount req \<and> tx_status h = ''completed''
      \<and> tx_created_at h = now env \<and> tx_completed_at h = Some (now env)"
    and d: "le_transaction_id d = uuid env \<and> le_account_id d = source_account op u c
      \<and> le_asset_type_id d = a \<and> le_entry_type d = Debit \<and> le_amount d = amount req
      \<and> le_running_balance d = cached_balance (store s) (source_account op u c) a - amount req"
    and e: "le_transaction_id e = uuid env \<and> le_account_id e = destination_account op u c
      \<and> le_asset_type_id e = a \<and> le_entry_type e = Credit \<and> le_amount e = amount req
      \<and> le_running_balance e
          = cached_balance (store s) (destination_account op u c) a + amount req"
    and ins: "header_insertable req env (store s)"
    and r: "res_transactionId r = uuid env \<and> res_timestamp r = now env \<and> res_amount r = amount req
      \<and> res_userId r = userId req \<and> res_assetCode r = assetCode req"
    by (rule committed_effect)
  from ins have new: "uuid env \<notin> tx_id ` set (transactions (store s))" and pos: "0 < amount req"
    by (simp_all add: header_insertable_def)
  from new have old_h: "filter (\<lambda>t. tx_id t = uuid env) (transactions (store s)) = []"
    by (force simp: filter_empty_conv)
  from new assms(2) have old_e: "filter (\<lambda>e. le_transaction_id e = uuid env) (ledger_entries (store s)) = []"
    by (force simp: filter_empty_conv entries_reference_headers_def list_all_iff)
  from new h have "h \<notin> set (transactions (store s))" by force
  with st h d e r pos old_h old_e show ?thesis
    by (simp add: headers_with_id_def entries_of_def)
qed

theorem C1_two_entries_witness:
  "executeTransaction TopUp (request_of 100 ''k1'') (world 5 60) fresh
     = (Inr (receipt 60 100 600 5),
        snd (executeTransaction TopUp (request_of 100 ''k1'') (world 5 60) fresh))
   \<and> entries_reference_headers (store fresh)
   \<and> (\<exists>h d e.
        headers_with_id 60
          (store (snd (executeTransaction TopUp (request_of 100 ''k1'') (world 5 60) fresh))) = [h]
      \<and> h \<notin> set (transactions (store fresh))
      \<and> entries_of 60
          (store (snd (executeTransaction TopUp (request_of 100 ''k1'') (world 5 60) fresh))) = [d, e]
      \<and> le_entry_type d = Debit \<and> le_entry_type e = Credit
      \<and> le_amount d = 100 \<and> le_amount e = 100
      \<and> le_asset_type_id d = tx_asset_type_id h \<and> le_asset_type_id e = tx_asset_type_id h)"
proof -
  have run: "executeTransaction TopUp (request_of 100 ''k1'') (world 5 60) fresh
     = (Inr (receipt 60 100 600 5),
        snd (executeTransaction TopUp (request_of 100 ''k1'') (world 5 60) fresh))"
    using topUp_100_runs by (simp add: prod_eq_iff)
  have fk: "entries_reference_headers (store fresh)"
    by (simp add: entries_reference_headers_def seed_defs)
  from C1_two_entries [OF run fk] run fk show ?thesis
    by (simp add: receipt_def request_of_def)
qed













text \<open>
  C7 fails for topUp. The user account row is locked by the query that looks it up,
  before the sorted pair is consulted, so a user account with an identifier above the
  treasury's is locked first: on the seeded database the user row 200 is locked before
  the treasury row 100.
\<close>

theorem C7_top_up_locks_user_first:
  "fst (executeTransaction TopUp (request_of 100 ''k1'') (world 5 60) fresh)
     = Inr (receipt 60 100 600 5)
   \<and> resolves TopUp (request_of 100 ''k1'') (store fresh) 3 200 100
   \<and> locks_taken (issued (snd (executeTransaction TopUp (request_of 100 ''k1'') (world 5 60)
        fresh))) = [200, 100]
   \<and> \<not> sorted (locks_taken (issued (snd (executeTransaction TopUp (request_of 100 ''k1'')
        (world 5 60) fresh))))"
proof -
  have res: "resolves TopUp (request_of 100 ''k1'') (store fresh) 3 200 100"
    by (simp add: resolves_def asset_type_rows_def user_account_rows_def
          system_account_rows_def seed_defs)
  have locks: "locks_taken (issued (snd (executeTransaction TopUp (request_of 100 ''k1'')
        (world 5 60) fresh))) = [200, 100]"
    by (simp add: locks_taken_def run_defs seed_defs)
  from topUp_100_runs res locks show ?thesis by simp
qed




text \<open>
  C9 (as amended). An idempotency record whose expiry is not in the future is treated as
  absent by the lookup. A movement submitted under its key while the record is stored is
  not processed: the call ends in an error and leaves every table as it was.
\<close>

theorem C9_expired_key_not_reusable:
  assumes stored: "idempotency_log (store s) (idempotencyKey req) = Some row"
    and expired: "il_expires_at row \<le> lookup_now c"
    and quiet: "interleaved c = (\<lambda>d. d)"
  shows "checkIdempotency (idempotencyKey req) (lookup_now c) (store s) = None
       \<and> (\<exists>e s'. movement op req c s = (Inl e, s') \<and> store s' = store s)"
proof
  from stored expired
  show miss: "checkIdempotency (idempotencyKey req) (lookup_now c) (store s) = None"
    by (simp add: checkIdempotency_def)
  show "\<exists>e s'. movement op req c s = (Inl e, s') \<and> store s' = store s"
  proof (cases "valid_request req")
    case False
    then show ?thesis using movement_invalid [of req op c s] by auto
  next
    case True
    let ?s0 = "s\<lparr>issued := issued s @ [SelectIdempotency (idempotencyKey req)],
                  store := interleaved c (store s)\<rparr>"
    have s0: "store ?s0 = store s" using quiet by simp
    obtain R s' where run: "movement op req c s = (R, s')" by (cases "movement op req c s")
    with True miss have loop:
      "executeWithRetry_from 1 None (executeTransaction op req) 3 (attempts c) ?s0 = (R, s')"
      by (simp add: movement_miss)
    show ?thesis
    proof (cases R)
      case (Inl e)
      with loop have "store s' = store ?s0"
        by (auto dest: retry_from_Inl_store [OF _ executeTransaction_atomic])
      with Inl run s0 show ?thesis by simp
    next
      case (Inr r)
      with loop obtain j sj where sj: "store sj = store ?s0"
        and won: "executeTransaction op req (attempts c j) sj = (Inr r, s')"
        using retry_from_Inr [OF _ executeTransaction_atomic] by blast
      from won obtain a u k where res: "resolves op req (store sj) a u k"
        by (rule committed_resolves)
      from won res have "idempotencyKey req \<notin> dom (idempotency_log (store sj))"
        by (rule committed_effect)
      with sj s0 stored show ?thesis by auto
    qed
  qed
qed

theorem C9_expired_key_not_reusable_witness:
  "idempotency_log (store settled) (idempotencyKey (request_of 100 ''k1''))
     = Some \<lparr>il_request_hash = (''user_001'', ''GOLD_COIN'', 100),
             il_response_data = receipt 60 100 600 5, il_status = ''completed'',
             il_created_at = 5, il_expires_at = 86400005\<rparr>
   \<and> il_expires_at \<lparr>il_request_hash = (''user_001'', ''GOLD_COIN'', 100),
             il_response_data = receipt 60 100 600 5, il_status = ''completed'',
             il_created_at = 5, il_expires_at = 86400005\<rparr>
       \<le> lookup_now (alone 86400005 61)
   \<and> interleaved (alone 86400005 61) = (\<lambda>d. d)
   \<and> checkIdempotency (idempotencyKey (request_of 100 ''k1'')) (lookup_now (alone 86400005 61))
        (store settled) = None
   \<and> (\<exists>e s'. movement Purchase (request_of 100 ''k1'') (alone 86400005 61) settled = (Inl e, s')
              \<and> store s' = store settled)"
proof -
  have key: "idempotencyKey (request_of 100 ''k1'') = ''k1''"
    by (simp add: request_of_def)
  have stored: "idempotency_log (store settled) (idempotencyKey (request_of 100 ''k1''))
     = Some \<lparr>il_request_hash = (''user_001'', ''GOLD_COIN'', 100),
             il_response_data = receipt 60 100 600 5, il_status = ''completed'',
             il_created_at = 5, il_expires_at = 86400005\<rparr>"
    by (simp only: key settled_record)
  have expired: "il_expires_at \<lparr>il_request_hash = (''user_001'', ''GOLD_COIN'', 100),
             il_response_data = receipt 60 100 600 5, il_status = ''completed'',
             il_created_at = 5, il_expires_at = 86400005\<rparr>
       \<le> lookup_now (alone 86400005 61)"
    by (simp add: alone_def)
  have quiet: "interleaved (alone 86400005 61) = (\<lambda>d. d)"
    by (simp add: alone_def)
  from C9_expired_key_not_reusable [OF stored expired quiet, of Purchase] stored expired quiet
  show ?thesis by blast
qed

text \<open>
  C9 as stated fails. After the record of the top-up under \<open>k1\<close> has expired, the lookup
  returns nothing, and a top-up or a purchase under \<open>k1\<close> fails with UniqueViolation: the
  header of the first movement still holds the key.
\<close>

theorem C9_fresh_movement_counterexample:
  "checkIdempotency ''k1'' 86400005 (store settled) = None
   \<and> fst (movement TopUp (request_of 100 ''k1'') (alone 86400005 61) settled)
       = Inl (DbError UniqueViolation)
   \<and> fst (movement Purchase (request_of 100 ''k1'') (alone 86400005 61) settled)
       = Inl (DbError UniqueViolation)"
  by (simp add: call_defs run_defs seed_defs)

text \<open>
  C10. Every transaction header the engine inserts has status \<open>completed\<close> and a
  completion time: of the headers in the table after the statements of a movement have
  run, committed or not, each one was there before or is completed; the same holds of
  the table the attempt leaves behind. No header is written as pending, failed or
  reversed.
\<close>

theorem C10_headers_completed:
  "(transaction_body op req env s = (R, s') \<longrightarrow>
      (\<forall>h\<in>set (transactions (store s')).
         h \<in> set (transactions (store s))
         \<or> (tx_status h = ''completed'' \<and> tx_completed_at h \<noteq> None)))
   \<and> (executeTransaction op req env s = (R, s'') \<longrightarrow>
      (\<forall>h\<in>set (transactions (store s'')).
         h \<in> set (transactions (store s))
         \<or> (tx_status h = ''completed'' \<and> tx_completed_at h \<noteq> None)))"
proof -
  have start: "new_headers_completed (transactions (store s)) (store s)"
    by (simp add: new_headers_completed_def)
  have body: "new_headers_completed (transactions (store s)) (store t)"
    if "transaction_body op req env s = (Q, t)" for Q t
    using transaction_body_keeps [of "transactions (store s)" op req env] start that
    by (auto simp: keeps_def)
  have whole: "new_headers_completed (transactions (store s)) (store t)"
    if "executeTransaction op req env s = (Q, t)" for Q t
  proof (cases Q)
    case (Inl e)
    with that have "store t = store s"
      by (simp add: executeTransaction_body rollback_on_error_Inl)
    with start show ?thesis by simp
  next
    case (Inr r)
    with that have "transaction_body op req env s = (Inr r, t)"
      by (simp add: executeTransaction_body rollback_on_error_Inr)
    then show ?thesis by (rule body)
  qed
  from body whole show ?thesis
    by (auto simp: new_headers_completed_def)
qed

theorem C10_headers_completed_witness:
  "transaction_body IssueBonus (request_of 301 ''k4'') (world 5 60) fresh
     = (Inl (InsufficientFunds BonusPoolShort),
        snd (transaction_body IssueBonus (request_of 301 ''k4'') (world 5 60) fresh))
   \<and> map tx_id (transactions
         (store (snd (transaction_body IssueBonus (request_of 301 ''k4'') (world 5 60) fresh))))
       = [50, 60]
   \<and> map tx_id (transactions (store fresh)) = [50]
   \<and> map tx_status (transactions
         (store (snd (transaction_body IssueBonus (request_of 301 ''k4'') (world 5 60) fresh))))
       = [''completed'', ''completed'']
   \<and> executeTransaction IssueBonus (request_of 301 ''k4'') (world 5 60) fresh
     = (Inl (InsufficientFunds BonusPoolShort),
        snd (executeTransaction IssueBonus (request_of 301 ''k4'') (world 5 60) fresh))
   \<and> map tx_status (transactions
         (store (snd (executeTransaction IssueBonus (request_of 301 ''k4'') (world 5 60) fresh))))
       = [''completed'']"
proof -
  have body: "transaction_body IssueBonus (request_of 301 ''k4'') (world 5 60) fresh
     = (Inl (InsufficientFunds BonusPoolShort),
        snd (transaction_body IssueBonus (request_of 301 ''k4'') (world 5 60) fresh))"
    by (simp add: prod_eq_iff run_defs seed_defs)
  have written: "map tx_id (transactions
         (store (snd (transaction_body IssueBonus (request_of 301 ''k4'') (world 5 60) fresh))))
       = [50, 60]"
    by (simp add: run_defs seed_defs)
  have before: "map tx_id (transactions (store fresh)) = [50]"
    "map tx_status (transactions (store fresh)) = [''completed'']"
    by (simp_all add: seed_defs)
  have whole: "executeTransaction IssueBonus (request_of 301 ''k4'') (world 5 60) fresh
     = (Inl (InsufficientFunds BonusPoolShort),
        snd (executeTransaction IssueBonus (request_of 301 ''k4'') (world 5 60) fresh))"
    by (simp add: prod_eq_iff run_defs seed_defs)
  have kept: "store (snd (executeTransaction IssueBonus (request_of 301 ''k4'') (world 5 60)
                 fresh)) = store fresh"
    by (simp add: run_defs seed_defs)
  from C10_headers_completed
    [of IssueBonus "request_of 301 ''k4''" "world 5 60" fresh
        "Inl (InsufficientFunds BonusPoolShort)"
        "snd (transaction_body IssueBonus (request_of 301 ''k4'') (world 5 60) fresh)"
        "snd (executeTransaction IssueBonus (request_of 301 ''k4'') (world 5 60) fresh)"]
    body whole
  have "\<forall>h\<in>set (transactions
         (store (snd (transaction_body IssueBonus (request_of 301 ''k4'') (world 5 60) fresh)))).
         h \<in> set (transactions (store fresh)) \<or> tx_status h = ''completed''"
    by blast
  then have "\<forall>h\<in>set (transactions
         (store (snd (transaction_body IssueBonus (request_of 301 ''k4'') (world 5 60) fresh)))).
         tx_status h = ''completed''"
    using before(2) by (auto simp: list_eq_iff_nth_eq in_set_conv_nth)
  then have "map tx_status (transactions
         (store (snd (transaction_body IssueBonus (request_of 301 ''k4'') (world 5 60) fresh))))
       = map (\<lambda>_. ''completed'') (transactions
         (store (snd (transaction_body IssueBonus (request_of 301 ''k4'') (world 5 60) fresh))))"
    by simp
  also have "\<dots> = replicate (length (map tx_id (transactions
         (store (snd (transaction_body IssueBonus (request_of 301 ''k4'') (world 5 60) fresh))))))
       ''completed''"
    by (simp add: map_replicate_const)
  also have "\<dots> = [''completed'', ''completed'']"
    by (simp only: written) simp
  finally show ?thesis
    using body written before whole kept by simp
qed

end
